theory Spec2Isabelle
  imports Complex_Main "HOL-Library.Word"
begin

section \<open>The decision-table engine of go-decision-table\<close>

text \<open>
  A shallow embedding of package \<open>decisiontable\<close>: value coercion, the operator
  algebra, row matching and the table-level evaluation with its match and no-match
  policies. Go's \<open>(T, error)\<close> results are sums \<open>error + T\<close>; a method that mutates
  the table returns the table after the call.
\<close>

subsection \<open>Tags\<close>

text \<open>
  \<open>DataType\<close>, \<open>OperatorType\<close> and \<open>ColumnType\<close> are named string types in the
  source, so every string is a value of them and the zero value is the empty string.
  The declared constants are the strings below.
\<close>

type_synonym DataType = string
type_synonym OperatorType = string
type_synonym ColumnType = string

abbreviation DataTypeString :: DataType where "DataTypeString \<equiv> ''STRING''"
abbreviation DataTypeInteger :: DataType where "DataTypeInteger \<equiv> ''INTEGER''"
abbreviation DataTypeBoolean :: DataType where "DataTypeBoolean \<equiv> ''BOOLEAN''"
abbreviation DataTypeDecimal :: DataType where "DataTypeDecimal \<equiv> ''DECIMAL''"
abbreviation DataTypeDate :: DataType where "DataTypeDate \<equiv> ''DATE''"
abbreviation DataTypeDateTime :: DataType where "DataTypeDateTime \<equiv> ''DATETIME''"
abbreviation DataTypeListString :: DataType where "DataTypeListString \<equiv> ''LIST_STRING''"
abbreviation DataTypeListInteger :: DataType where "DataTypeListInteger \<equiv> ''LIST_INTEGER''"

abbreviation OperatorGreaterOrEqual :: OperatorType where "OperatorGreaterOrEqual \<equiv> ''GT_EQ''"
abbreviation OperatorGreater :: OperatorType where "OperatorGreater \<equiv> ''GT''"
abbreviation OperatorEqual :: OperatorType where "OperatorEqual \<equiv> ''EQ''"
abbreviation OperatorLess :: OperatorType where "OperatorLess \<equiv> ''LT''"
abbreviation OperatorLessOrEqual :: OperatorType where "OperatorLessOrEqual \<equiv> ''LT_EQ''"
abbreviation OperatorNotEqual :: OperatorType where "OperatorNotEqual \<equiv> ''NOT_EQ''"
abbreviation OperatorIn :: OperatorType where "OperatorIn \<equiv> ''IN''"
abbreviation OperatorNotIn :: OperatorType where "OperatorNotIn \<equiv> ''NOT_IN''"
abbreviation OperatorAnyContained :: OperatorType where "OperatorAnyContained \<equiv> ''ANY_CONTAINED_IN''"
abbreviation OperatorNotAnyContained :: OperatorType where
  "OperatorNotAnyContained \<equiv> ''NOT_ANY_CONTAINED_IN''"
abbreviation OperatorAllContained :: OperatorType where "OperatorAllContained \<equiv> ''ALL_CONTAINED_IN''"
abbreviation OperatorNotAllContained :: OperatorType where
  "OperatorNotAllContained \<equiv> ''NOT_ALL_CONTAINED_IN''"
abbreviation OperatorContainsAll :: OperatorType where "OperatorContainsAll \<equiv> ''CONTAINS_ALL''"
abbreviation OperatorNotContainsAll :: OperatorType where
  "OperatorNotContainsAll \<equiv> ''NOT_CONTAINS_ALL''"
abbreviation OperatorAllEqual :: OperatorType where "OperatorAllEqual \<equiv> ''ALL_EQUAL''"
abbreviation OperatorMatchesRegex :: OperatorType where "OperatorMatchesRegex \<equiv> ''MATCHES_REGEX''"
abbreviation OperatorIsNull :: OperatorType where "OperatorIsNull \<equiv> ''IS_NULL''"
abbreviation OperatorIsNotNull :: OperatorType where "OperatorIsNotNull \<equiv> ''IS_NOT_NULL''"

abbreviation ColumnTypeCondition :: ColumnType where "ColumnTypeCondition \<equiv> ''CONDITION''"
abbreviation ColumnTypeConclusion :: ColumnType where "ColumnTypeConclusion \<equiv> ''CONCLUSION''"
abbreviation ColumnTypeMetadata :: ColumnType where "ColumnTypeMetadata \<equiv> ''METADATA''"

text \<open>The policies are \<open>int\<close> types whose constants are numbered by \<open>iota\<close>.\<close>

type_synonym MatchPolicy = int
type_synonym NoMatchPolicy = int
type_synonym RowValidationPolicy = int

definition MatchPolicyFirst :: MatchPolicy where "MatchPolicyFirst = 0"
definition MatchPolicyAll :: MatchPolicy where "MatchPolicyAll = 1"
definition MatchPolicyUnique :: MatchPolicy where "MatchPolicyUnique = 2"

definition NoMatchPolicyReturnDefault :: NoMatchPolicy where "NoMatchPolicyReturnDefault = 0"
definition NoMatchPolicyThrowError :: NoMatchPolicy where "NoMatchPolicyThrowError = 1"

definition RowValidationStrict :: RowValidationPolicy where "RowValidationStrict = 0"
definition RowValidationLenient :: RowValidationPolicy where "RowValidationLenient = 1"

subsection \<open>Values\<close>

text \<open>
  A \<open>*big.Float\<close> is modelled by the number it holds (\<open>Cmp\<close> reads nothing else): a
  rational, or an infinity with its sign. A \<open>time.Time\<close> is modelled by its instant, in
  nanoseconds (\<open>Equal\<close>, \<open>Before\<close> and \<open>After\<close> compare instants). A compiled
  \<open>*regexp.Regexp\<close> is modelled by the source text it was compiled from; what it
  matches is the library's.
\<close>

datatype bigfloat = BigFinite rat | BigInf bool

datatype regexp = Regexp string

text \<open>
  The dynamic types an \<open>any\<close> holds in this model: \<open>nil\<close>, \<open>string\<close>, the ten integer
  types (\<open>int\<close> and \<open>uint\<close> are 64 bits wide), \<open>bool\<close>, \<open>*big.Float\<close> (never a
  nil pointer), \<open>time.Time\<close>, \<open>*regexp.Regexp\<close>, and the slices \<open>[]any\<close>,
  \<open>[]string\<close>, \<open>[]int\<close>, \<open>[]int64\<close> and \<open>[]bool\<close>. A nil slice is the empty
  list. Floating-point values, \<open>json.Number\<close> and user-defined types are not part of the
  model.
\<close>

datatype any =
    ANil
  | AString string
  | AInt "64 word"
  | AInt8 "8 word"
  | AInt16 "16 word"
  | AInt32 "32 word"
  | AInt64 "64 word"
  | AUint "64 word"
  | AUint8 "8 word"
  | AUint16 "16 word"
  | AUint32 "32 word"
  | AUint64 "64 word"
  | ABool bool
  | ABigFloat bigfloat
  | ATime int
  | ARegexp regexp
  | ASlice "any list"
  | AStrings "string list"
  | AInts "64 word list"
  | AInt64s "64 word list"
  | ABools "bool list"

subsection \<open>Errors\<close>

text \<open>
  One constructor for each message of the source, with the values it prints; \<open>%w\<close>
  wraps an error. A string argument names the target of a failed conversion
  (\<open>ErrEmptyString ''int64''\<close> is "cannot convert empty string to int64") or the
  expected kind of two compared values; \<open>ErrSchema\<close> carries the message of a rejected
  table definition.
\<close>

datatype error =
    ErrEmptyString string
  | ErrCannotConvert any string
  | ErrOverflows any string
  | ErrParseIntSyntax string
  | ErrParseIntRange string
  | ErrNilToString
  | ErrValueToString any
  | ErrInvalidDate string
  | ErrInvalidDateTime string
  | ErrNotSliceOrArray any
  | ErrUnsupportedDataType DataType
  | ErrRegexRequiresPattern
  | ErrRegexRequiresString any
  | ErrRegexpCompile string
  | ErrRequiresValueTrue OperatorType
  | ErrExpectsSlice OperatorType any
  | ErrExpectsRegexp any
  | ErrExpectsStringActual any
  | ErrAllEqualExpectsScalar
  | ErrUnsupportedOperator OperatorType
  | ErrValuesNot string any any
  | ErrOnlyNumericColumns OperatorType
  | ErrMissingDataType int string
  | ErrRowColumn int string error
  | ErrUniqueMatch nat
  | ErrNoMatch
  | ErrDefaultRowPolicy
  | ErrDefaultRowEvalCells
  | ErrNoEvalCell
  | ErrNoReturnCell
  | ErrUnknownColumn string
  | ErrMissingOperator string
  | ErrColumn string error
  | ErrReturnColumn string error
  | ErrSchema string

subsection \<open>The standard library\<close>

text \<open>
  The functions of Go's standard library whose results the engine only passes on are
  parameters of the model: \<open>fmt.Sprint\<close> of one operand, the \<open>String\<close> method of a
  \<open>fmt.Stringer\<close>, \<open>time.Parse\<close> (layout, then value), \<open>regexp.Compile\<close> and
  \<open>(*Regexp).MatchString\<close>, and \<open>(*big.Float).SetString\<close> outside the plain decimal
  literals treated below. A failing library call is \<open>None\<close>.
\<close>

record golib =
  fmt_Sprint :: "any \<Rightarrow> string"
  Stringer_String :: "any \<Rightarrow> string"
  time_Parse :: "string \<Rightarrow> string \<Rightarrow> int option"
  regexp_Compile :: "string \<Rightarrow> regexp option"
  regexp_MatchString :: "regexp \<Rightarrow> string \<Rightarrow> bool"
  big_Float_SetString :: "string \<Rightarrow> bigfloat option"

subsubsection \<open>strings.TrimSpace\<close>

text \<open>
  Strings are byte sequences holding UTF-8. \<open>strings.TrimSpace\<close> removes the leading
  and trailing runes for which \<open>unicode.IsSpace\<close> holds: the six ASCII ones, U+0085,
  U+00A0, U+1680, U+2000 to U+200A, U+2028, U+2029, U+202F, U+205F and U+3000.
\<close>

definition space1 :: "char \<Rightarrow> bool" where
  "space1 c \<longleftrightarrow> c \<in> set [CHR 0x09, CHR 0x0A, CHR 0x0B, CHR 0x0C, CHR 0x0D, CHR 0x20]"

definition space2 :: "char \<Rightarrow> char \<Rightarrow> bool" where
  "space2 a b \<longleftrightarrow> a = CHR 0xC2 \<and> (b = CHR 0x85 \<or> b = CHR 0xA0)"

definition space3 :: "char \<Rightarrow> char \<Rightarrow> char \<Rightarrow> bool" where
  "space3 a b c \<longleftrightarrow>
     (a = CHR 0xE1 \<and> b = CHR 0x9A \<and> c = CHR 0x80) \<or>
     (a = CHR 0xE2 \<and> b = CHR 0x80 \<and>
        c \<in> set [CHR 0x80, CHR 0x81, CHR 0x82, CHR 0x83, CHR 0x84, CHR 0x85, CHR 0x86,
                  CHR 0x87, CHR 0x88, CHR 0x89, CHR 0x8A, CHR 0xA8, CHR 0xA9, CHR 0xAF]) \<or>
     (a = CHR 0xE2 \<and> b = CHR 0x81 \<and> c = CHR 0x9F) \<or>
     (a = CHR 0xE3 \<and> b = CHR 0x80 \<and> c = CHR 0x80)"

fun trimLeft :: "string \<Rightarrow> string" where
  "trimLeft (a # b # c # s) =
     (if space1 a then trimLeft (b # c # s)
      else if space2 a b then trimLeft (c # s)
      else if space3 a b c then trimLeft s
      else a # b # c # s)"
| "trimLeft [a, b] =
     (if space1 a then trimLeft [b] else if space2 a b then [] else [a, b])"
| "trimLeft [a] = (if space1 a then [] else [a])"
| "trimLeft [] = []"

text \<open>The same from the end, on the reversed string.\<close>

fun trimLeftRev :: "string \<Rightarrow> string" where
  "trimLeftRev (c # b # a # s) =
     (if space1 c then trimLeftRev (b # a # s)
      else if space2 b c then trimLeftRev (a # s)
      else if space3 a b c then trimLeftRev s
      else c # b # a # s)"
| "trimLeftRev [c, b] =
     (if space1 c then trimLeftRev [b] else if space2 b c then [] else [c, b])"
| "trimLeftRev [c] = (if space1 c then [] else [c])"
| "trimLeftRev [] = []"

definition TrimSpace :: "string \<Rightarrow> string" where
  "TrimSpace s = rev (trimLeftRev (rev (trimLeft s)))"

subsubsection \<open>strings.ToLower\<close>

text \<open>
  The engine compares \<open>strings.ToLower\<close> of a string with the ASCII words
  \<open>true 1 yes y false 0 no n\<close> only. No rune outside ASCII lowers to a letter of these
  words, so lowering the ASCII capitals decides these comparisons.
\<close>

definition toLowerChar :: "char \<Rightarrow> char" where
  "toLowerChar c =
     (case map_of (zip ''ABCDEFGHIJKLMNOPQRSTUVWXYZ'' ''abcdefghijklmnopqrstuvwxyz'') c of
        None \<Rightarrow> c | Some l \<Rightarrow> l)"

definition ToLower :: "string \<Rightarrow> string" where
  "ToLower s = map toLowerChar s"

subsubsection \<open>strconv.ParseInt, base 10, 64 bits\<close>

definition is_digit :: "char \<Rightarrow> bool" where
  "is_digit c \<longleftrightarrow> c \<in> set ''0123456789''"

definition digit_val :: "char \<Rightarrow> int" where
  "digit_val c = of_char c - 48"

definition digits_value :: "string \<Rightarrow> int" where
  "digits_value ds = foldl (\<lambda>acc c. 10 * acc + digit_val c) 0 ds"

definition ParseInt :: "string \<Rightarrow> error + 64 word" where
  "ParseInt s =
     (let (neg, ds) =
            (case s of
               c # r \<Rightarrow> if c = CHR ''+'' then (False, r)
                        else if c = CHR ''-'' then (True, r) else (False, s)
             | [] \<Rightarrow> (False, s))
      in if ds = [] \<or> \<not> list_all is_digit ds then Inl (ErrParseIntSyntax s)
         else let v = (if neg then - digits_value ds else digits_value ds)
              in if v < - (2 ^ 63) \<or> 2 ^ 63 - 1 < v then Inl (ErrParseIntRange s)
                 else Inr (word_of_int v))"

subsubsection \<open>Rounding to a binary precision\<close>

fun bitlen :: "int \<Rightarrow> nat" where
  "bitlen n = (if n \<le> 0 then 0 else Suc (bitlen (n div 2)))"

declare bitlen.simps [simp del]

text \<open>
  \<open>round_ratio p n d\<close> is \<open>n / d\<close>, for \<open>n \<ge> 0\<close> and \<open>d > 0\<close>, rounded to \<open>p\<close>
  significant bits, to nearest and ties to even: the quotient is taken with at least
  two bits more than \<open>p\<close>, the remainder of the division is the sticky bit.
\<close>

definition round_ratio :: "nat \<Rightarrow> int \<Rightarrow> int \<Rightarrow> rat" where
  "round_ratio p n d =
     (if n \<le> 0 then 0
      else let s = (p + 2 + bitlen d) - bitlen n;
               q = (n * 2 ^ s) div d;
               r = (n * 2 ^ s) mod d;
               x = bitlen q - p;
               m = q div 2 ^ x;
               low = q mod 2 ^ x;
               half = 2 ^ (x - 1);
               m' = (if half < low \<or> (low = half \<and> (0 < r \<or> odd m)) then m + 1 else m)
           in of_int (m' * 2 ^ x) / of_int (2 ^ s))"

text \<open>
  The conversion \<open>float64(v)\<close> of an integer: the value of the nearest double, 53
  significant bits. An integer below \<open>2 ^ 64\<close> rounds to an integer.
\<close>

definition float64_of_int :: "int \<Rightarrow> rat" where
  "float64_of_int v =
     (if v < 0 then - round_ratio 53 (- v) 1 else round_ratio 53 v 1)"

subsubsection \<open>(*big.Float).SetString at precision 128\<close>

text \<open>
  A plain decimal literal is an optional sign, digits, and optionally a point followed
  by 1 to 82 digits. For it \<open>SetString\<close> divides the integer of all digits by the
  exact power of ten (\<open>5 ^ 82\<close> fits the 192 bits the library computes it in) and
  rounds the quotient once, to nearest even, at the receiver's 128 bits. Every other
  string is left to the library parameter.
\<close>

definition plain_decimal :: "string \<Rightarrow> (bool \<times> int \<times> nat) option" where
  "plain_decimal s =
     (let (neg, body) =
            (case s of
               c # r \<Rightarrow> if c = CHR ''+'' then (False, r)
                        else if c = CHR ''-'' then (True, r) else (False, s)
             | [] \<Rightarrow> (False, s));
          ip = takeWhile is_digit body;
          rest = dropWhile is_digit body
      in if ip = [] then None
         else (case rest of
                 [] \<Rightarrow> Some (neg, digits_value ip, 0)
               | c # fp \<Rightarrow>
                   if c = CHR ''.'' \<and> fp \<noteq> [] \<and> list_all is_digit fp \<and> length fp \<le> 82
                   then Some (neg, digits_value (ip @ fp), length fp)
                   else None))"

definition decimalPrecision :: nat where
  "decimalPrecision = 128"

definition SetString :: "golib \<Rightarrow> string \<Rightarrow> bigfloat option" where
  "SetString L s =
     (case plain_decimal s of
        Some (neg, m, k) \<Rightarrow>
          Some (BigFinite ((if neg then - 1 else 1) * round_ratio decimalPrecision m (10 ^ k)))
      | None \<Rightarrow> big_Float_SetString L s)"

text \<open>\<open>x.Cmp(y)\<close>: \<open>-1\<close>, \<open>0\<close> or \<open>+1\<close>.\<close>

definition big_Cmp :: "bigfloat \<Rightarrow> bigfloat \<Rightarrow> int" where
  "big_Cmp x y =
     (case (x, y) of
        (BigFinite a, BigFinite b) \<Rightarrow> (if a < b then - 1 else if b < a then 1 else 0)
      | (BigFinite a, BigInf neg) \<Rightarrow> (if neg then 1 else - 1)
      | (BigInf neg, BigFinite b) \<Rightarrow> (if neg then - 1 else 1)
      | (BigInf n1, BigInf n2) \<Rightarrow> (if n1 = n2 then 0 else if n1 then - 1 else 1))"

subsection \<open>Value coercion\<close>

text \<open>A copy of a decimal holds the same number at the same precision.\<close>

definition cloneDecimal :: "bigfloat \<Rightarrow> bigfloat" where
  "cloneDecimal src = src"

text \<open>\<open>fmt.Sprint\<close> of a string is that string.\<close>

definition Sprint :: "golib \<Rightarrow> any \<Rightarrow> string" where
  "Sprint L raw = (case raw of AString v \<Rightarrow> v | _ \<Rightarrow> fmt_Sprint L raw)"

text \<open>
  \<open>int64(v)\<close> sign-extends a signed and zero-extends an unsigned narrower integer;
  from \<open>uint\<close> it keeps the 64 bits.
\<close>

fun toInt64 :: "any \<Rightarrow> error + 64 word" where
  "toInt64 (AInt v) = Inr v"
| "toInt64 (AInt8 v) = Inr (scast v)"
| "toInt64 (AInt16 v) = Inr (scast v)"
| "toInt64 (AInt32 v) = Inr (scast v)"
| "toInt64 (AInt64 v) = Inr v"
| "toInt64 (AUint v) = Inr v"
| "toInt64 (AUint8 v) = Inr (ucast v)"
| "toInt64 (AUint16 v) = Inr (ucast v)"
| "toInt64 (AUint32 v) = Inr (ucast v)"
| "toInt64 (AUint64 v) =
     (if 2 ^ 63 - 1 < uint v then Inl (ErrOverflows (AUint64 v) ''int64'') else Inr v)"
| "toInt64 (AString v) =
     (let trimmed = TrimSpace v
      in if trimmed = [] then Inl (ErrEmptyString ''int64'') else ParseInt trimmed)"
| "toInt64 raw = Inl (ErrCannotConvert raw ''int64'')"

text \<open>The \<open>string\<close> case of \<open>toBigFloat\<close>, which its \<open>fmt.Stringer\<close> case calls too.\<close>

definition toBigFloat_string :: "golib \<Rightarrow> string \<Rightarrow> error + bigfloat option" where
  "toBigFloat_string L v =
     (let trim = TrimSpace v
      in if trim = [] then Inl (ErrEmptyString ''decimal'')
         else (case SetString L trim of
                 None \<Rightarrow> Inl (ErrCannotConvert (AString v) ''decimal'')
               | Some f \<Rightarrow> Inr (Some f)))"

text \<open>
  The result is a pointer: \<open>None\<close> is the nil pointer returned for a nil input. Of the
  modelled dynamic types, \<open>time.Time\<close> and \<open>*regexp.Regexp\<close> reach the
  \<open>fmt.Stringer\<close> case. The narrow integers and \<open>int\<close>, \<open>uint\<close> go through
  \<open>float64\<close>.
\<close>

fun toBigFloat :: "golib \<Rightarrow> any \<Rightarrow> error + bigfloat option" where
  "toBigFloat L ANil = Inr None"
| "toBigFloat L (ABigFloat v) = Inr (Some (cloneDecimal v))"
| "toBigFloat L (AString v) = toBigFloat_string L v"
| "toBigFloat L (ATime v) = toBigFloat_string L (Stringer_String L (ATime v))"
| "toBigFloat L (ARegexp v) = toBigFloat_string L (Stringer_String L (ARegexp v))"
| "toBigFloat L (AInt v) = Inr (Some (BigFinite (float64_of_int (sint v))))"
| "toBigFloat L (AInt8 v) = Inr (Some (BigFinite (float64_of_int (sint v))))"
| "toBigFloat L (AInt16 v) = Inr (Some (BigFinite (float64_of_int (sint v))))"
| "toBigFloat L (AInt32 v) = Inr (Some (BigFinite (float64_of_int (sint v))))"
| "toBigFloat L (AInt64 v) = Inr (Some (BigFinite (of_int (sint v))))"
| "toBigFloat L (AUint v) = Inr (Some (BigFinite (float64_of_int (uint v))))"
| "toBigFloat L (AUint8 v) = Inr (Some (BigFinite (float64_of_int (uint v))))"
| "toBigFloat L (AUint16 v) = Inr (Some (BigFinite (float64_of_int (uint v))))"
| "toBigFloat L (AUint32 v) = Inr (Some (BigFinite (float64_of_int (uint v))))"
| "toBigFloat L (AUint64 v) =
     (if 2 ^ 63 - 1 < uint v then Inl (ErrOverflows (AUint64 v) ''decimal'')
      else Inr (Some (BigFinite (of_int (uint v)))))"
| "toBigFloat L raw = Inl (ErrCannotConvert raw ''decimal'')"

fun toBool :: "any \<Rightarrow> error + bool" where
  "toBool (ABool v) = Inr v"
| "toBool (AString v) =
     (let trimmed = TrimSpace v
      in if trimmed = [] then Inl (ErrEmptyString ''bool'')
         else if ToLower trimmed \<in> set [''true'', ''1'', ''yes'', ''y''] then Inr True
         else if ToLower trimmed \<in> set [''false'', ''0'', ''no'', ''n''] then Inr False
         else Inl (ErrCannotConvert (AString v) ''bool''))"
| "toBool (AInt v) = Inr (v \<noteq> 0)"
| "toBool (AInt8 v) = Inr (v \<noteq> 0)"
| "toBool (AInt16 v) = Inr (v \<noteq> 0)"
| "toBool (AInt32 v) = Inr (v \<noteq> 0)"
| "toBool (AInt64 v) = Inr (v \<noteq> 0)"
| "toBool (AUint v) = Inr (v \<noteq> 0)"
| "toBool (AUint8 v) = Inr (v \<noteq> 0)"
| "toBool (AUint16 v) = Inr (v \<noteq> 0)"
| "toBool (AUint32 v) = Inr (v \<noteq> 0)"
| "toBool (AUint64 v) = Inr (v \<noteq> 0)"
| "toBool raw = Inl (ErrCannotConvert raw ''bool'')"

definition toTrimmedString_string :: "string \<Rightarrow> error + string" where
  "toTrimmedString_string v =
     (let trimmed = TrimSpace v
      in if trimmed = [] then Inl (ErrEmptyString ''value'') else Inr trimmed)"

text \<open>
  \<open>*big.Float\<close>, \<open>time.Time\<close> and \<open>*regexp.Regexp\<close> are the modelled types with a
  \<open>String\<close> method.
\<close>

fun toTrimmedString :: "golib \<Rightarrow> any \<Rightarrow> error + string" where
  "toTrimmedString L ANil = Inl ErrNilToString"
| "toTrimmedString L (AString v) = toTrimmedString_string v"
| "toTrimmedString L (ABigFloat v) = toTrimmedString_string (Stringer_String L (ABigFloat v))"
| "toTrimmedString L (ATime v) = toTrimmedString_string (Stringer_String L (ATime v))"
| "toTrimmedString L (ARegexp v) = toTrimmedString_string (Stringer_String L (ARegexp v))"
| "toTrimmedString L raw =
     (let trimmed = TrimSpace (fmt_Sprint L raw)
      in if trimmed = [] then Inl (ErrValueToString raw) else Inr trimmed)"

definition parseISODate :: "golib \<Rightarrow> any \<Rightarrow> error + int" where
  "parseISODate L raw =
     (case toTrimmedString L raw of
        Inl err \<Rightarrow> Inl err
      | Inr str \<Rightarrow>
          (case time_Parse L ''2006-01-02'' str of
             None \<Rightarrow> Inl (ErrInvalidDate str)
           | Some parsed \<Rightarrow> Inr parsed))"

abbreviation RFC3339Nano :: string where "RFC3339Nano \<equiv> ''2006-01-02T15:04:05.999999999Z07:00''"
abbreviation RFC3339 :: string where "RFC3339 \<equiv> ''2006-01-02T15:04:05Z07:00''"

text \<open>The loop over the layouts: the first layout that parses wins.\<close>

fun parseLayouts :: "golib \<Rightarrow> string \<Rightarrow> string list \<Rightarrow> int option" where
  "parseLayouts L str [] = None"
| "parseLayouts L str (layout # layouts) =
     (case time_Parse L layout str of
        Some parsed \<Rightarrow> Some parsed
      | None \<Rightarrow> parseLayouts L str layouts)"

definition parseISODateTime :: "golib \<Rightarrow> any \<Rightarrow> error + int" where
  "parseISODateTime L raw =
     (case toTrimmedString L raw of
        Inl err \<Rightarrow> Inl err
      | Inr str \<Rightarrow>
          (case parseLayouts L str [RFC3339Nano, RFC3339] of
             Some parsed \<Rightarrow> Inr parsed
           | None \<Rightarrow> Inl (ErrInvalidDateTime str)))"

definition elementDataType :: "DataType \<Rightarrow> DataType" where
  "elementDataType dt =
     (if dt = DataTypeListString then DataTypeString
      else if dt = DataTypeListInteger then DataTypeInteger
      else dt)"

text \<open>Of the modelled dynamic types only the five slice types and nil are accepted.\<close>

fun toInterfaceSlice :: "any \<Rightarrow> error + any list" where
  "toInterfaceSlice ANil = Inr []"
| "toInterfaceSlice (ASlice v) = Inr v"
| "toInterfaceSlice (AStrings v) = Inr (map AString v)"
| "toInterfaceSlice (AInts v) = Inr (map AInt v)"
| "toInterfaceSlice (AInt64s v) = Inr (map AInt64 v)"
| "toInterfaceSlice (ABools v) = Inr (map ABool v)"
| "toInterfaceSlice raw = Inl (ErrNotSliceOrArray raw)"

text \<open>
  \<open>coercePrimitive\<close> and \<open>coerceList\<close> call each other; \<open>coerceElems\<close> is the loop
  of \<open>coerceList\<close> (and of \<open>sanitizeCollection\<close>) over the values, which stops at the
  first element that fails.
\<close>

function coercePrimitive :: "golib \<Rightarrow> DataType \<Rightarrow> any \<Rightarrow> error + any"
  and coerceList :: "golib \<Rightarrow> any \<Rightarrow> DataType \<Rightarrow> error + any list"
  and coerceElems :: "golib \<Rightarrow> DataType \<Rightarrow> any list \<Rightarrow> error + any list"
where
  "coercePrimitive L dt raw =
     (if raw = ANil then Inr ANil
      else if dt = DataTypeString then Inr (AString (Sprint L raw))
      else if dt = DataTypeInteger then map_sum id AInt64 (toInt64 raw)
      else if dt = DataTypeDecimal then
        map_sum id (\<lambda>p. case p of None \<Rightarrow> ANil | Some f \<Rightarrow> ABigFloat f) (toBigFloat L raw)
      else if dt = DataTypeBoolean then map_sum id ABool (toBool raw)
      else if dt = DataTypeDate then map_sum id ATime (parseISODate L raw)
      else if dt = DataTypeDateTime then map_sum id ATime (parseISODateTime L raw)
      else if dt = DataTypeListString then map_sum id ASlice (coerceList L raw DataTypeString)
      else if dt = DataTypeListInteger then map_sum id ASlice (coerceList L raw DataTypeInteger)
      else Inl (ErrUnsupportedDataType dt))"
| "coerceList L raw elemType =
     (case toInterfaceSlice raw of
        Inl err \<Rightarrow> Inl err
      | Inr values \<Rightarrow> coerceElems L elemType values)"
| "coerceElems L elemType [] = Inr []"
| "coerceElems L elemType (v # vs) =
     (case coercePrimitive L elemType v of
        Inl err \<Rightarrow> Inl err
      | Inr sanitized \<Rightarrow>
          (case coerceElems L elemType vs of
             Inl err \<Rightarrow> Inl err
           | Inr result \<Rightarrow> Inr (sanitized # result)))"
  by pat_completeness auto
termination
  by (relation "measures
        [\<lambda>x. case x of
               Inl (L, dt, raw) \<Rightarrow> if dt = DataTypeListString \<or> dt = DataTypeListInteger then 1 else 0
             | Inr (Inl (L, raw, et)) \<Rightarrow> if et = DataTypeListString \<or> et = DataTypeListInteger then 1 else 0
             | Inr (Inr (L, et, vs)) \<Rightarrow> if et = DataTypeListString \<or> et = DataTypeListInteger then 1 else 0,
         \<lambda>x. case x of
               Inl (L, dt, raw) \<Rightarrow> 0
             | Inr (Inl (L, raw, et)) \<Rightarrow> 2
             | Inr (Inr (L, et, vs)) \<Rightarrow> 1,
         \<lambda>x. case x of
               Inl (L, dt, raw) \<Rightarrow> 0
             | Inr (Inl (L, raw, et)) \<Rightarrow> 0
             | Inr (Inr (L, et, vs)) \<Rightarrow> length vs]") auto

declare coercePrimitive.simps [simp del] coerceList.simps [simp del]

definition sanitizeCollection :: "golib \<Rightarrow> DataType \<Rightarrow> any \<Rightarrow> error + any list" where
  "sanitizeCollection L dt raw =
     (if raw = ANil then Inr []
      else (case toInterfaceSlice raw of
              Inl err \<Rightarrow> Inl err
            | Inr values \<Rightarrow> coerceElems L (elementDataType dt) values))"

definition sanitizeReturnValue :: "golib \<Rightarrow> DataType \<Rightarrow> any \<Rightarrow> error + any" where
  "sanitizeReturnValue L dt raw = coercePrimitive L dt raw"

definition sanitizeActualValue :: "golib \<Rightarrow> DataType \<Rightarrow> any \<Rightarrow> error + any" where
  "sanitizeActualValue L dt actual = coercePrimitive L dt actual"

definition sanitizeActualCollection :: "golib \<Rightarrow> DataType \<Rightarrow> any \<Rightarrow> error + any list" where
  "sanitizeActualCollection L dt actual = sanitizeCollection L dt actual"

definition requiresCollectionValue :: "OperatorType \<Rightarrow> bool" where
  "requiresCollectionValue op \<longleftrightarrow>
     op \<in> set [OperatorIn, OperatorNotIn, OperatorAnyContained, OperatorNotAnyContained,
               OperatorAllContained, OperatorNotAllContained, OperatorContainsAll,
               OperatorNotContainsAll]"

definition expectsActualCollection :: "OperatorType \<Rightarrow> bool" where
  "expectsActualCollection op \<longleftrightarrow>
     op \<in> set [OperatorAnyContained, OperatorNotAnyContained, OperatorAllContained,
               OperatorNotAllContained, OperatorContainsAll, OperatorNotContainsAll,
               OperatorAllEqual]"

text \<open>
  The expected value of a cell, sanitized once at registration: a compiled pattern, the
  flag \<open>true\<close>, a list, or a coerced scalar.
\<close>

definition sanitizeExpectedValue :: "golib \<Rightarrow> DataType \<Rightarrow> OperatorType \<Rightarrow> any \<Rightarrow> error + any" where
  "sanitizeExpectedValue L dt op raw =
     (if op = OperatorMatchesRegex then
        (if raw = ANil then Inl ErrRegexRequiresPattern
         else (case coercePrimitive L DataTypeString raw of
                 Inl err \<Rightarrow> Inl err
               | Inr (AString str) \<Rightarrow>
                   (case regexp_Compile L str of
                      None \<Rightarrow> Inl (ErrRegexpCompile str)
                    | Some re \<Rightarrow> Inr (ARegexp re))
               | Inr pattern \<Rightarrow> Inl (ErrRegexRequiresString pattern)))
      else if op = OperatorIsNull \<or> op = OperatorIsNotNull then
        (if raw = ANil then Inr (ABool True)
         else (case toBool raw of
                 Inl err \<Rightarrow> Inl err
               | Inr flag \<Rightarrow> if \<not> flag then Inl (ErrRequiresValueTrue op) else Inr (ABool flag)))
      else if requiresCollectionValue op then map_sum id ASlice (sanitizeCollection L dt raw)
      else coercePrimitive L dt raw)"

subsection \<open>Operators\<close>

text \<open>Type assertions: \<open>v.(string)\<close>, \<open>v.(int64)\<close>, \<open>v.(*big.Float)\<close>, and so on.\<close>

fun asString :: "any \<Rightarrow> string option" where
  "asString (AString v) = Some v"
| "asString v = None"

fun asInt64 :: "any \<Rightarrow> 64 word option" where
  "asInt64 (AInt64 v) = Some v"
| "asInt64 v = None"

fun asBigFloat :: "any \<Rightarrow> bigfloat option" where
  "asBigFloat (ABigFloat v) = Some v"
| "asBigFloat v = None"

fun asBool :: "any \<Rightarrow> bool option" where
  "asBool (ABool v) = Some v"
| "asBool v = None"

fun asTime :: "any \<Rightarrow> int option" where
  "asTime (ATime v) = Some v"
| "asTime v = None"

fun asSlice :: "any \<Rightarrow> any list option" where
  "asSlice (ASlice v) = Some v"
| "asSlice v = None"

fun asRegexp :: "any \<Rightarrow> regexp option" where
  "asRegexp (ARegexp v) = Some v"
| "asRegexp v = None"

text \<open>
  \<open>equals\<close> and \<open>equalsList\<close> call each other; \<open>equalsElems\<close> is the loop of
  \<open>equalsList\<close> over the positions of two lists of one length.
\<close>

function equals :: "DataType \<Rightarrow> any \<Rightarrow> any \<Rightarrow> error + bool"
  and equalsList :: "DataType \<Rightarrow> any \<Rightarrow> any \<Rightarrow> error + bool"
  and equalsElems :: "DataType \<Rightarrow> (any \<times> any) list \<Rightarrow> error + bool"
where
  "equals dt left right =
     (if left = ANil \<or> right = ANil then Inr (left = ANil \<and> right = ANil)
      else if dt = DataTypeString then
        (case (asString left, asString right) of
           (Some lhs, Some rhs) \<Rightarrow> Inr (lhs = rhs)
         | _ \<Rightarrow> Inl (ErrValuesNot ''strings'' left right))
      else if dt = DataTypeInteger then
        (case (asInt64 left, asInt64 right) of
           (Some lhs, Some rhs) \<Rightarrow> Inr (lhs = rhs)
         | _ \<Rightarrow> Inl (ErrValuesNot ''int64'' left right))
      else if dt = DataTypeDecimal then
        (case (asBigFloat left, asBigFloat right) of
           (Some lbd, Some rbd) \<Rightarrow> Inr (big_Cmp lbd rbd = 0)
         | _ \<Rightarrow> Inl (ErrValuesNot ''decimal'' left right))
      else if dt = DataTypeBoolean then
        (case (asBool left, asBool right) of
           (Some lhs, Some rhs) \<Rightarrow> Inr (lhs = rhs)
         | _ \<Rightarrow> Inl (ErrValuesNot ''bool'' left right))
      else if dt = DataTypeDate \<or> dt = DataTypeDateTime then
        (case (asTime left, asTime right) of
           (Some lhs, Some rhs) \<Rightarrow> Inr (lhs = rhs)
         | _ \<Rightarrow> Inl (ErrValuesNot ''time.Time'' left right))
      else if dt = DataTypeListString then equalsList DataTypeString left right
      else if dt = DataTypeListInteger then equalsList DataTypeInteger left right
      else Inl (ErrUnsupportedDataType dt))"
| "equalsList elemType left right =
     (case (asSlice left, asSlice right) of
        (Some lhs, Some rhs) \<Rightarrow>
          if length lhs \<noteq> length rhs then Inr False else equalsElems elemType (zip lhs rhs)
      | _ \<Rightarrow> Inl (ErrValuesNot ''list'' left right))"
| "equalsElems elemType [] = Inr True"
| "equalsElems elemType ((l, r) # rest) =
     (case equals elemType l r of
        Inl err \<Rightarrow> Inl err
      | Inr match \<Rightarrow> if \<not> match then Inr False else equalsElems elemType rest)"
  by pat_completeness auto
termination
  by (relation "measures
        [\<lambda>x. case x of
               Inl (dt, l, r) \<Rightarrow> if dt = DataTypeListString \<or> dt = DataTypeListInteger then 1 else 0
             | Inr (Inl (et, l, r)) \<Rightarrow> if et = DataTypeListString \<or> et = DataTypeListInteger then 1 else 0
             | Inr (Inr (et, ps)) \<Rightarrow> if et = DataTypeListString \<or> et = DataTypeListInteger then 1 else 0,
         \<lambda>x. case x of
               Inl (dt, l, r) \<Rightarrow> 0
             | Inr (Inl (et, l, r)) \<Rightarrow> 2
             | Inr (Inr (et, ps)) \<Rightarrow> 1,
         \<lambda>x. case x of
               Inl (dt, l, r) \<Rightarrow> 0
             | Inr (Inl (et, l, r)) \<Rightarrow> 0
             | Inr (Inr (et, ps)) \<Rightarrow> length ps]") auto

declare equals.simps [simp del] equalsList.simps [simp del]

text \<open>
  The ordering operators. Integer operands are converted with \<open>float64(lv)\<close> and
  \<open>float64(rv)\<close> and compared as doubles; decimals are compared with \<open>Cmp\<close>, times
  with \<open>After\<close> and \<open>Before\<close>.
\<close>

definition compare :: "DataType \<Rightarrow> OperatorType \<Rightarrow> any \<Rightarrow> any \<Rightarrow> error + bool" where
  "compare dt op left right =
     (if left = ANil \<or> right = ANil then Inr False
      else if dt = DataTypeInteger then
        (case (asInt64 left, asInt64 right) of
           (Some lv, Some rv) \<Rightarrow>
             (let l = float64_of_int (sint lv); r = float64_of_int (sint rv)
              in if op = OperatorGreater then Inr (l > r)
                 else if op = OperatorGreaterOrEqual then Inr (l \<ge> r)
                 else if op = OperatorLess then Inr (l < r)
                 else if op = OperatorLessOrEqual then Inr (l \<le> r)
                 else Inl (ErrUnsupportedOperator op))
         | _ \<Rightarrow> Inl (ErrValuesNot ''int64'' left right))
      else if dt = DataTypeDecimal then
        (case (asBigFloat left, asBigFloat right) of
           (Some lbd, Some rbd) \<Rightarrow>
             (if op = OperatorGreater then Inr (big_Cmp lbd rbd > 0)
              else if op = OperatorGreaterOrEqual then Inr (big_Cmp lbd rbd \<ge> 0)
              else if op = OperatorLess then Inr (big_Cmp lbd rbd < 0)
              else if op = OperatorLessOrEqual then Inr (big_Cmp lbd rbd \<le> 0)
              else Inl (ErrUnsupportedOperator op))
         | _ \<Rightarrow> Inl (ErrValuesNot ''decimal'' left right))
      else if dt = DataTypeDate \<or> dt = DataTypeDateTime then
        (case (asTime left, asTime right) of
           (Some lTime, Some rTime) \<Rightarrow>
             (if op = OperatorGreater then Inr (lTime > rTime)
              else if op = OperatorGreaterOrEqual then Inr (\<not> lTime < rTime)
              else if op = OperatorLess then Inr (lTime < rTime)
              else if op = OperatorLessOrEqual then Inr (\<not> lTime > rTime)
              else Inl (ErrUnsupportedOperator op))
         | _ \<Rightarrow> Inl (ErrValuesNot ''time.Time'' left right))
      else Inl (ErrOnlyNumericColumns op))"

fun containsLoop :: "DataType \<Rightarrow> any list \<Rightarrow> any \<Rightarrow> error + bool" where
  "containsLoop elemType [] needle = Inr False"
| "containsLoop elemType (candidate # haystack) needle =
     (case equals elemType candidate needle of
        Inl err \<Rightarrow> Inl err
      | Inr match \<Rightarrow> if match then Inr True else containsLoop elemType haystack needle)"

definition containsValue :: "DataType \<Rightarrow> any list \<Rightarrow> any \<Rightarrow> error + bool" where
  "containsValue dt haystack needle = containsLoop (elementDataType dt) haystack needle"

definition evaluateScalarOperator ::
  "golib \<Rightarrow> DataType \<Rightarrow> OperatorType \<Rightarrow> any \<Rightarrow> any \<Rightarrow> error + bool" where
  "evaluateScalarOperator L dt op actual expected =
     (if op = OperatorEqual then equals dt actual expected
      else if op = OperatorNotEqual then map_sum id Not (equals dt actual expected)
      else if op \<in> set [OperatorGreater, OperatorGreaterOrEqual, OperatorLess, OperatorLessOrEqual]
        then compare dt op actual expected
      else if op = OperatorIn then
        (case asSlice expected of
           None \<Rightarrow> Inl (ErrExpectsSlice op expected)
         | Some expectedSlice \<Rightarrow> containsValue dt expectedSlice actual)
      else if op = OperatorNotIn then
        (case asSlice expected of
           None \<Rightarrow> Inl (ErrExpectsSlice op expected)
         | Some expectedSlice \<Rightarrow> map_sum id Not (containsValue dt expectedSlice actual))
      else if op = OperatorMatchesRegex then
        (if actual = ANil then Inr False
         else (case asRegexp expected of
                 None \<Rightarrow> Inl (ErrExpectsRegexp expected)
               | Some re \<Rightarrow>
                   (case asString actual of
                      None \<Rightarrow> Inl (ErrExpectsStringActual actual)
                    | Some v \<Rightarrow> Inr (regexp_MatchString L re v))))
      else if op = OperatorIsNull then Inr (actual = ANil)
      else if op = OperatorIsNotNull then Inr (actual \<noteq> ANil)
      else Inl (ErrUnsupportedOperator op))"

text \<open>The loops of the collection operators; each stops at the element that decides.\<close>

fun anyContainedLoop :: "DataType \<Rightarrow> any list \<Rightarrow> any list \<Rightarrow> error + bool" where
  "anyContainedLoop dt expectedSlice [] = Inr False"
| "anyContainedLoop dt expectedSlice (v # actual) =
     (case containsValue dt expectedSlice v of
        Inl err \<Rightarrow> Inl err
      | Inr match \<Rightarrow> if match then Inr True else anyContainedLoop dt expectedSlice actual)"

fun allContainedLoop :: "DataType \<Rightarrow> any list \<Rightarrow> any list \<Rightarrow> error + bool" where
  "allContainedLoop dt haystack [] = Inr True"
| "allContainedLoop dt haystack (v # vs) =
     (case containsValue dt haystack v of
        Inl err \<Rightarrow> Inl err
      | Inr match \<Rightarrow> if \<not> match then Inr False else allContainedLoop dt haystack vs)"

fun allEqualLoop :: "DataType \<Rightarrow> any \<Rightarrow> any list \<Rightarrow> error + bool" where
  "allEqualLoop dt expected [] = Inr True"
| "allEqualLoop dt expected (v # actual) =
     (case equals dt v expected of
        Inl err \<Rightarrow> Inl err
      | Inr match \<Rightarrow> if \<not> match then Inr False else allEqualLoop dt expected actual)"

text \<open>
  A negated operator evaluates its positive form and negates the answer. The loop of
  \<open>CONTAINS_ALL\<close> looks every expected element up in the actual list.
\<close>

function evaluateCollectionOperator ::
  "DataType \<Rightarrow> OperatorType \<Rightarrow> any list \<Rightarrow> any \<Rightarrow> error + bool" where
  "evaluateCollectionOperator dt op actual expected =
     (if op = OperatorAnyContained then
        (case asSlice expected of
           None \<Rightarrow> Inl (ErrExpectsSlice op expected)
         | Some expectedSlice \<Rightarrow> anyContainedLoop dt expectedSlice actual)
      else if op = OperatorNotAnyContained then
        map_sum id Not (evaluateCollectionOperator dt OperatorAnyContained actual expected)
      else if op = OperatorAllContained then
        (case asSlice expected of
           None \<Rightarrow> Inl (ErrExpectsSlice op expected)
         | Some expectedSlice \<Rightarrow> allContainedLoop dt expectedSlice actual)
      else if op = OperatorNotAllContained then
        map_sum id Not (evaluateCollectionOperator dt OperatorAllContained actual expected)
      else if op = OperatorContainsAll then
        (case asSlice expected of
           None \<Rightarrow> Inl (ErrExpectsSlice op expected)
         | Some expectedSlice \<Rightarrow> allContainedLoop dt actual expectedSlice)
      else if op = OperatorNotContainsAll then
        map_sum id Not (evaluateCollectionOperator dt OperatorContainsAll actual expected)
      else if op = OperatorAllEqual then
        (if expected = ANil then Inl ErrAllEqualExpectsScalar
         else (case allEqualLoop dt expected actual of
                 Inl err \<Rightarrow> Inl err
               | Inr match \<Rightarrow> if \<not> match then Inr False else Inr (length actual > 0)))
      else Inl (ErrUnsupportedOperator op))"
  by pat_completeness auto
termination
  by (relation "measure (\<lambda>(dt, op, actual, expected).
        if op \<in> set [OperatorNotAnyContained, OperatorNotAllContained, OperatorNotContainsAll]
        then 1 else 0)") auto

declare evaluateCollectionOperator.simps [simp del]

definition evaluateCell ::
  "golib \<Rightarrow> DataType \<Rightarrow> OperatorType \<Rightarrow> any \<Rightarrow> any \<Rightarrow> error + bool" where
  "evaluateCell L dt op actual expected =
     (if expectsActualCollection op then
        (case sanitizeActualCollection L dt actual of
           Inl err \<Rightarrow> Inl err
         | Inr actualSlice \<Rightarrow> evaluateCollectionOperator dt op actualSlice expected)
      else
        (case sanitizeActualValue L dt actual of
           Inl err \<Rightarrow> Inl err
         | Inr actualValue \<Rightarrow> evaluateScalarOperator L dt op actualValue expected))"

subsection \<open>Value isolation\<close>

fun cloneArbitraryValue :: "any \<Rightarrow> any"
  and cloneAnySlice :: "any list \<Rightarrow> any list"
where
  "cloneArbitraryValue (ABigFloat dec) = ABigFloat (cloneDecimal dec)"
| "cloneArbitraryValue (ASlice list) = ASlice (cloneAnySlice list)"
| "cloneArbitraryValue v = v"
| "cloneAnySlice [] = []"
| "cloneAnySlice (v # src) = cloneArbitraryValue v # cloneAnySlice src"

definition cloneValueForType :: "any \<Rightarrow> DataType \<Rightarrow> any" where
  "cloneValueForType v dt =
     (case (if dt = DataTypeDecimal then asBigFloat v else None) of
        Some dec \<Rightarrow> ABigFloat (cloneDecimal dec)
      | None \<Rightarrow>
          (case (if dt = DataTypeListString \<or> dt = DataTypeListInteger then asSlice v else None) of
             Some list \<Rightarrow> ASlice (cloneAnySlice list)
           | None \<Rightarrow> v))"

text \<open>\<open>cloneMap\<close> of a map that is not nil.\<close>

definition cloneMap :: "(string \<rightharpoonup> any) \<Rightarrow> (string \<rightharpoonup> any)" where
  "cloneMap src = (\<lambda>k. map_option cloneArbitraryValue (src k))"

subsection \<open>Rows\<close>

record Column =
  colName :: string
  colType :: ColumnType
  colDataType :: DataType

record EvalCell =
  ecColumn :: string
  ecOperator :: OperatorType
  ecValue :: any
  ecDataType :: DataType

record ReturnCell =
  rcColumn :: string
  rcValue :: any
  rcDataType :: DataType

record Row =
  EvalCells :: "EvalCell list"
  ReturnCells :: "ReturnCell list"
  RuleID :: string
  Comments :: string
  Number :: int

record MatchedRow =
  Values :: "string \<rightharpoonup> any"
  mrRuleID :: string
  mrComments :: string
  RowNumber :: int

text \<open>Indexing a map: a missing key reads as the zero value, nil.\<close>

definition index :: "(string \<rightharpoonup> any) \<Rightarrow> string \<Rightarrow> any" where
  "index input key = (case input key of None \<Rightarrow> ANil | Some v \<Rightarrow> v)"

text \<open>One condition cell against the input: the call \<open>Row.matches\<close> makes for it.\<close>

abbreviation cellEval :: "golib \<Rightarrow> (string \<rightharpoonup> any) \<Rightarrow> EvalCell \<Rightarrow> error + bool" where
  "cellEval L input cell \<equiv>
     evaluateCell L (ecDataType cell) (ecOperator cell) (index input (ecColumn cell))
       (ecValue cell)"

text \<open>The loop of \<open>Row.matches\<close> over the condition cells of row \<open>number\<close>.\<close>

fun matchesCells :: "golib \<Rightarrow> int \<Rightarrow> (string \<rightharpoonup> any) \<Rightarrow> EvalCell list \<Rightarrow> error + bool" where
  "matchesCells L number input [] = Inr True"
| "matchesCells L number input (cell # cells) =
     (if ecDataType cell = [] then Inl (ErrMissingDataType number (ecColumn cell))
      else (case evaluateCell L (ecDataType cell) (ecOperator cell)
                   (index input (ecColumn cell)) (ecValue cell) of
              Inl err \<Rightarrow> Inl (ErrRowColumn number (ecColumn cell) err)
            | Inr match \<Rightarrow> if \<not> match then Inr False else matchesCells L number input cells))"

definition matches :: "golib \<Rightarrow> Row \<Rightarrow> (string \<rightharpoonup> any) \<Rightarrow> error + bool" where
  "matches L r input = matchesCells L (Number r) input (EvalCells r)"

definition materializeReturnValues :: "Row \<Rightarrow> (string \<rightharpoonup> any)" where
  "materializeReturnValues r =
     foldl (\<lambda>values cell. values(rcColumn cell \<mapsto> cloneValueForType (rcValue cell) (rcDataType cell)))
       Map.empty (ReturnCells r)"

subsection \<open>The decision table\<close>

record DecisionTable =
  Name :: string
  conditionColumns :: "string \<rightharpoonup> Column"
  outputColumns :: "string \<rightharpoonup> Column"
  rows :: "Row list"
  defaultRow :: "Row option"
  matchPolicy :: MatchPolicy
  noMatchPolicy :: NoMatchPolicy
  rowValidation :: RowValidationPolicy

definition validate :: "Column \<Rightarrow> error option" where
  "validate c =
     (if colName c = [] then Some (ErrSchema ''column name must be provided'')
      else if colType c \<notin> set [ColumnTypeCondition, ColumnTypeConclusion, ColumnTypeMetadata]
        then Some (ErrSchema ''column has unsupported type'')
      else if colDataType c \<in> set [DataTypeString, DataTypeInteger, DataTypeBoolean,
                 DataTypeDecimal, DataTypeDate, DataTypeDateTime, DataTypeListString,
                 DataTypeListInteger]
        then None
      else Some (ErrSchema ''column has unsupported data type''))"

fun buildColumnLoop ::
  "ColumnType list \<Rightarrow> (string \<rightharpoonup> Column) \<Rightarrow> Column list \<Rightarrow> error + (string \<rightharpoonup> Column)" where
  "buildColumnLoop allowed result [] = Inr result"
| "buildColumnLoop allowed result (c # cols) =
     (case validate c of
        Some err \<Rightarrow> Inl err
      | None \<Rightarrow>
          if colType c \<notin> set allowed then Inl (ErrSchema ''column must be one of the allowed types'')
          else if result (colName c) \<noteq> None then Inl (ErrSchema ''duplicate column'')
          else buildColumnLoop allowed (result(colName c \<mapsto> c)) cols)"

definition buildColumnMap :: "Column list \<Rightarrow> ColumnType list \<Rightarrow> error + (string \<rightharpoonup> Column)" where
  "buildColumnMap cols allowedTypes = buildColumnLoop allowedTypes Map.empty cols"

text \<open>An option configures the table under construction; a nil option is skipped.\<close>

type_synonym Option = "DecisionTable \<Rightarrow> DecisionTable"

definition WithMatchPolicy :: "MatchPolicy \<Rightarrow> Option" where
  "WithMatchPolicy mp = (\<lambda>dt. dt\<lparr>matchPolicy := mp\<rparr>)"

definition WithNoMatchPolicy :: "NoMatchPolicy \<Rightarrow> Option" where
  "WithNoMatchPolicy nmp = (\<lambda>dt. dt\<lparr>noMatchPolicy := nmp\<rparr>)"

definition WithRowValidationPolicy :: "RowValidationPolicy \<Rightarrow> Option" where
  "WithRowValidationPolicy rvp = (\<lambda>dt. dt\<lparr>rowValidation := rvp\<rparr>)"

definition NewDecisionTable ::
  "string \<Rightarrow> Column list \<Rightarrow> Column list \<Rightarrow> Option option list \<Rightarrow> error + DecisionTable" where
  "NewDecisionTable name conditionCols outputCols opts =
     (if name = [] then Inl (ErrSchema ''table name must not be empty'')
      else if length conditionCols = 0
        then Inl (ErrSchema ''table must define at least one condition column'')
      else if length outputCols = 0
        then Inl (ErrSchema ''table must define at least one output column'')
      else (case buildColumnMap conditionCols [ColumnTypeCondition] of
              Inl err \<Rightarrow> Inl err
            | Inr conditionMap \<Rightarrow>
                (case buildColumnMap outputCols [ColumnTypeConclusion, ColumnTypeMetadata] of
                   Inl err \<Rightarrow> Inl err
                 | Inr outputMap \<Rightarrow>
                     Inr (foldl (\<lambda>dt opt. case opt of None \<Rightarrow> dt | Some f \<Rightarrow> f dt)
                            \<lparr>Name = name, conditionColumns = conditionMap,
                             outputColumns = outputMap, rows = [], defaultRow = None,
                             matchPolicy = MatchPolicyAll,
                             noMatchPolicy = NoMatchPolicyThrowError,
                             rowValidation = RowValidationStrict\<rparr>
                            opts))))"

subsubsection \<open>Row registration\<close>

fun prepareEvalCells :: "golib \<Rightarrow> DecisionTable \<Rightarrow> EvalCell list \<Rightarrow> error + EvalCell list" where
  "prepareEvalCells L dt [] = Inr []"
| "prepareEvalCells L dt (cell # cells) =
     (case conditionColumns dt (ecColumn cell) of
        None \<Rightarrow> Inl (ErrUnknownColumn (ecColumn cell))
      | Some col \<Rightarrow>
          if ecOperator cell = [] then Inl (ErrMissingOperator (colName col))
          else (case sanitizeExpectedValue L (colDataType col) (ecOperator cell) (ecValue cell) of
                  Inl err \<Rightarrow> Inl (ErrColumn (colName col) err)
                | Inr v \<Rightarrow>
                    (case prepareEvalCells L dt cells of
                       Inl err \<Rightarrow> Inl err
                     | Inr prepared \<Rightarrow>
                         Inr (\<lparr>ecColumn = colName col, ecOperator = ecOperator cell,
                               ecValue = v, ecDataType = colDataType col\<rparr> # prepared))))"

fun prepareReturnCells :: "golib \<Rightarrow> DecisionTable \<Rightarrow> ReturnCell list \<Rightarrow> error + ReturnCell list" where
  "prepareReturnCells L dt [] = Inr []"
| "prepareReturnCells L dt (cell # cells) =
     (case outputColumns dt (rcColumn cell) of
        None \<Rightarrow> Inl (ErrUnknownColumn (rcColumn cell))
      | Some col \<Rightarrow>
          (case sanitizeReturnValue L (colDataType col) (rcValue cell) of
             Inl err \<Rightarrow> Inl (ErrReturnColumn (colName col) err)
           | Inr v \<Rightarrow>
               (case prepareReturnCells L dt cells of
                  Inl err \<Rightarrow> Inl err
                | Inr prepared \<Rightarrow>
                    Inr (\<lparr>rcColumn = colName col, rcValue = v,
                          rcDataType = colDataType col\<rparr> # prepared))))"

definition prepareRow :: "golib \<Rightarrow> DecisionTable \<Rightarrow> Row \<Rightarrow> bool \<Rightarrow> bool \<Rightarrow> error + Row" where
  "prepareRow L dt row requireEval requireReturn =
     (if requireEval \<and> length (EvalCells row) = 0 then Inl ErrNoEvalCell
      else if requireReturn \<and> length (ReturnCells row) = 0 then Inl ErrNoReturnCell
      else (case prepareEvalCells L dt (EvalCells row) of
              Inl err \<Rightarrow> Inl err
            | Inr evalCells \<Rightarrow>
                (case prepareReturnCells L dt (ReturnCells row) of
                   Inl err \<Rightarrow> Inl err
                 | Inr returnCells \<Rightarrow>
                     Inr \<lparr>EvalCells = evalCells, ReturnCells = returnCells,
                          RuleID = RuleID row, Comments = Comments row,
                          Number = Number row\<rparr>)))"

text \<open>
  \<open>AddRow\<close> and \<open>SetDefaultRow\<close> return the error, if any, and the table as the call
  leaves it.
\<close>

definition AddRow :: "golib \<Rightarrow> DecisionTable \<Rightarrow> Row \<Rightarrow> error option \<times> DecisionTable" where
  "AddRow L dt row =
     (case prepareRow L dt row (rowValidation dt = RowValidationStrict)
             (rowValidation dt = RowValidationStrict) of
        Inl err \<Rightarrow> (Some err, dt)
      | Inr prepared \<Rightarrow>
          (let prepared' = (if Number prepared \<le> 0
                            then prepared\<lparr>Number := int (length (rows dt)) + 1\<rparr>
                            else prepared)
           in (None, dt\<lparr>rows := rows dt @ [prepared']\<rparr>)))"

definition SetDefaultRow :: "golib \<Rightarrow> DecisionTable \<Rightarrow> Row \<Rightarrow> error option \<times> DecisionTable" where
  "SetDefaultRow L dt row =
     (if noMatchPolicy dt \<noteq> NoMatchPolicyReturnDefault \<and> noMatchPolicy dt \<noteq> NoMatchPolicyThrowError
        then (Some ErrDefaultRowPolicy, dt)
      else if length (EvalCells row) > 0 then (Some ErrDefaultRowEvalCells, dt)
      else (case prepareRow L dt row False True of
              Inl err \<Rightarrow> (Some err, dt)
            | Inr prepared \<Rightarrow>
                (let prepared' = (if Number prepared \<le> 0
                                  then prepared\<lparr>Number := int (length (rows dt)) + 1\<rparr>
                                  else prepared)
                 in (None, dt\<lparr>defaultRow := Some prepared'\<rparr>))))"

text \<open>A sequence of \<open>AddRow\<close> calls; a call that fails leaves the table to the next.\<close>

definition AddRows :: "golib \<Rightarrow> DecisionTable \<Rightarrow> Row list \<Rightarrow> DecisionTable" where
  "AddRows L dt rs = foldl (\<lambda>d r. snd (AddRow L d r)) dt rs"

subsubsection \<open>Evaluation\<close>

definition matchedRow :: "Row \<Rightarrow> MatchedRow" where
  "matchedRow row =
     \<lparr>Values = materializeReturnValues row, mrRuleID = RuleID row,
      mrComments = Comments row, RowNumber = Number row\<rparr>"

text \<open>
  The scan of \<open>Evaluate\<close> over the rows, with the matches found so far: it breaks at
  the first match under FIRST, fails at the second under UNIQUE, and fails when a row
  fails.
\<close>

fun evaluateLoop ::
  "golib \<Rightarrow> MatchPolicy \<Rightarrow> (string \<rightharpoonup> any) \<Rightarrow> Row list \<Rightarrow> MatchedRow list
     \<Rightarrow> error + MatchedRow list" where
  "evaluateLoop L mp input [] found = Inr found"
| "evaluateLoop L mp input (row # rest) found =
     (case matches L row input of
        Inl err \<Rightarrow> Inl err
      | Inr match \<Rightarrow>
          if match then
            (let found' = found @ [matchedRow row]
             in if mp = MatchPolicyFirst then Inr found'
                else if mp = MatchPolicyUnique \<and> length found' > 1
                  then Inl (ErrUniqueMatch (length found'))
                else evaluateLoop L mp input rest found')
          else evaluateLoop L mp input rest found)"

definition Evaluate ::
  "golib \<Rightarrow> DecisionTable \<Rightarrow> (string \<rightharpoonup> any) \<Rightarrow> (string \<rightharpoonup> any) option
     \<Rightarrow> error + MatchedRow list" where
  "Evaluate L dt input defaultReturn =
     (case evaluateLoop L (matchPolicy dt) input (rows dt) [] of
        Inl err \<Rightarrow> Inl err
      | Inr found \<Rightarrow>
          if length found = 0 then
            (if noMatchPolicy dt = NoMatchPolicyReturnDefault then
               (case defaultRow dt of
                  Some d \<Rightarrow> Inr (found @ [matchedRow d])
                | None \<Rightarrow>
                    (case defaultReturn of
                       Some m \<Rightarrow>
                         Inr (found @ [\<lparr>Values = cloneMap m, mrRuleID = [], mrComments = [],
                                        RowNumber = 0\<rparr>])
                     | None \<Rightarrow> Inr found))
             else if noMatchPolicy dt = NoMatchPolicyThrowError then
               (case defaultRow dt of
                  Some d \<Rightarrow> Inr (found @ [matchedRow d])
                | None \<Rightarrow> Inl ErrNoMatch)
             else Inr found)
          else if matchPolicy dt = MatchPolicyUnique then Inr found
          else Inr found)"

subsection \<open>An example table\<close>

text \<open>
  A table with one condition column and one output column, both of type STRING, and rows
  "country = c gives tier t": as a caller passes them to \<open>AddRow\<close> (the unexported
  DataType of a cell is empty, the number is the caller's), and as the table stores them.
\<close>

definition countryColumn :: Column where
  "countryColumn = \<lparr>colName = ''country'', colType = ColumnTypeCondition, colDataType = DataTypeString\<rparr>"

definition tierColumn :: Column where
  "tierColumn = \<lparr>colName = ''tier'', colType = ColumnTypeConclusion, colDataType = DataTypeString\<rparr>"

definition exampleTable :: "MatchPolicy \<Rightarrow> NoMatchPolicy \<Rightarrow> DecisionTable" where
  "exampleTable mp nmp =
     \<lparr>Name = ''eligibility'', conditionColumns = [''country'' \<mapsto> countryColumn],
      outputColumns = [''tier'' \<mapsto> tierColumn], rows = [], defaultRow = None,
      matchPolicy = mp, noMatchPolicy = nmp, rowValidation = RowValidationStrict\<rparr>"

definition countryRow :: "string \<Rightarrow> string \<Rightarrow> int \<Rightarrow> Row" where
  "countryRow country tier n =
     \<lparr>EvalCells = [\<lparr>ecColumn = ''country'', ecOperator = OperatorEqual,
                    ecValue = AString country, ecDataType = []\<rparr>],
      ReturnCells = [\<lparr>rcColumn = ''tier'', rcValue = AString tier, rcDataType = []\<rparr>],
      RuleID = tier, Comments = [], Number = n\<rparr>"

definition storedCountryRow :: "string \<Rightarrow> string \<Rightarrow> int \<Rightarrow> Row" where
  "storedCountryRow country tier n =
     \<lparr>EvalCells = [\<lparr>ecColumn = ''country'', ecOperator = OperatorEqual,
                    ecValue = AString country, ecDataType = DataTypeString\<rparr>],
      ReturnCells = [\<lparr>rcColumn = ''tier'', rcValue = AString tier, rcDataType = DataTypeString\<rparr>],
      RuleID = tier, Comments = [], Number = n\<rparr>"

subsection \<open>Rows that registration rejects\<close>

text \<open>
  The defects of a raw row: a cell on an unknown column, a condition cell without
  operator, a cell whose value fails to sanitize, or no cell of a required kind.
\<close>

definition rejected :: "golib \<Rightarrow> DecisionTable \<Rightarrow> Row \<Rightarrow> bool \<Rightarrow> bool \<Rightarrow> bool" where
  "rejected L dt row requireEval requireReturn \<longleftrightarrow>
     (\<exists>c \<in> set (EvalCells row). conditionColumns dt (ecColumn c) = None)
   \<or> (\<exists>c \<in> set (EvalCells row). ecOperator c = [])
   \<or> (\<exists>c \<in> set (EvalCells row). \<exists>col e. conditionColumns dt (ecColumn c) = Some col \<and>
         sanitizeExpectedValue L (colDataType col) (ecOperator c) (ecValue c) = Inl e)
   \<or> (\<exists>c \<in> set (ReturnCells row). outputColumns dt (rcColumn c) = None)
   \<or> (\<exists>c \<in> set (ReturnCells row). \<exists>col e. outputColumns dt (rcColumn c) = Some col \<and>
         sanitizeReturnValue L (colDataType col) (rcValue c) = Inl e)
   \<or> (requireEval \<and> EvalCells row = [])
   \<or> (requireReturn \<and> ReturnCells row = [])"


subsection \<open>The rows that match\<close>

text \<open>The stored rows whose \<open>matches\<close> returns true on an input, in stored order.\<close>

definition matching :: "golib \<Rightarrow> (string \<rightharpoonup> any) \<Rightarrow> Row list \<Rightarrow> Row list" where
  "matching L input rs = filter (\<lambda>r. matches L r input = Inr True) rs"

section \<open>Properties\<close>

lemmas policy_defs =
  MatchPolicyFirst_def MatchPolicyAll_def MatchPolicyUnique_def
  NoMatchPolicyReturnDefault_def NoMatchPolicyThrowError_def
  RowValidationStrict_def RowValidationLenient_def

subsection \<open>Null operands of the ordering operators\<close>

lemma coercePrimitive_nil: "coercePrimitive L dt ANil = Inr ANil"
  by (simp add: coercePrimitive.simps)

lemma compare_nil: "left = ANil \<or> right = ANil \<Longrightarrow> compare dt op left right = Inr False"
  by (simp add: compare_def)

lemma ordering_dispatch:
  assumes "op \<in> {OperatorGreater, OperatorGreaterOrEqual, OperatorLess, OperatorLessOrEqual}"
  shows "evaluateScalarOperator L dt op actual expected = compare dt op actual expected"
    and "\<not> expectsActualCollection op"
  using assms by (auto simp: evaluateScalarOperator_def expectsActualCollection_def)

text \<open>
  Claim C10. For every DataType (every string, declared or not) and each of the four
  ordering operators, a nil actual or a nil expected value makes \<open>compare\<close>, and so
  the scalar operator, answer false without an error; a cell whose actual value is nil
  evaluates to false the same way.
\<close>

theorem ordering_null_operand:
  assumes "op \<in> {OperatorGreater, OperatorGreaterOrEqual, OperatorLess, OperatorLessOrEqual}"
    and "actual = ANil \<or> expected = ANil"
  shows "compare dt op actual expected = Inr False
       \<and> evaluateScalarOperator L dt op actual expected = Inr False
       \<and> evaluateCell L dt op ANil expected = Inr False"
  using assms
  by (simp add: ordering_dispatch compare_nil evaluateCell_def sanitizeActualValue_def
      coercePrimitive_nil del: insert_iff)

theorem ordering_null_operand_witness:
  "\<forall>L. compare DataTypeInteger OperatorLess (AInt64 5) ANil = Inr False
       \<and> evaluateScalarOperator L DataTypeInteger OperatorLess (AInt64 5) ANil = Inr False
       \<and> evaluateCell L DataTypeInteger OperatorLess ANil ANil = Inr False"
  using ordering_null_operand [of OperatorLess "AInt64 5" ANil DataTypeInteger] by simp

subsection \<open>Collection operators on an empty actual list\<close>

lemma allEqualLoop_True:
  "allEqualLoop dt expected actual = Inr True \<longleftrightarrow>
     (\<forall>v \<in> set actual. equals dt v expected = Inr True)"
proof (induction actual)
  case Nil
  show ?case by simp
next
  case (Cons v vs)
  show ?case
  proof (cases "equals dt v expected")
    case (Inl e)
    then show ?thesis by simp
  next
    case (Inr b)
    then show ?thesis using Cons.IH by (cases b) simp_all
  qed
qed

lemma evaluate_AllEqual:
  "evaluateCollectionOperator dt OperatorAllEqual actual expected =
     (if expected = ANil then Inl ErrAllEqualExpectsScalar
      else (case allEqualLoop dt expected actual of
              Inl err \<Rightarrow> Inl err
            | Inr match \<Rightarrow> if \<not> match then Inr False else Inr (length actual > 0)))"
  by (simp add: evaluateCollectionOperator.simps [of _ OperatorAllEqual])

lemma evaluate_AnyContained:
  "evaluateCollectionOperator dt OperatorAnyContained actual (ASlice es) =
     anyContainedLoop dt es actual"
  by (simp add: evaluateCollectionOperator.simps [of _ OperatorAnyContained])

lemma evaluate_AllContained:
  "evaluateCollectionOperator dt OperatorAllContained actual (ASlice es) =
     allContainedLoop dt es actual"
  by (simp add: evaluateCollectionOperator.simps [of _ OperatorAllContained])

lemma sanitizeCollection_empty:
  "toInterfaceSlice raw = Inr [] \<Longrightarrow> sanitizeActualCollection L dt raw = Inr []"
  by (simp add: sanitizeActualCollection_def sanitizeCollection_def)

text \<open>
  Claim C4. For every DataType and every expected collection \<open>ASlice es\<close>:
  ANY_CONTAINED_IN on an empty actual list is false and ALL_CONTAINED_IN on an empty
  actual list is true, at the operator and for a cell whose raw actual value is an empty
  list of any accepted shape; ALL_EQUAL is true exactly when the expected scalar is not
  nil, the actual list is not empty and every element equals the expected scalar.
\<close>

theorem collection_operators_empty_actual:
  "evaluateCollectionOperator dt OperatorAnyContained [] (ASlice es) = Inr False
   \<and> evaluateCollectionOperator dt OperatorAllContained [] (ASlice es) = Inr True
   \<and> (toInterfaceSlice raw = Inr [] \<longrightarrow>
        evaluateCell L dt OperatorAnyContained raw (ASlice es) = Inr False
      \<and> evaluateCell L dt OperatorAllContained raw (ASlice es) = Inr True)
   \<and> (evaluateCollectionOperator dt OperatorAllEqual actual expected = Inr True \<longleftrightarrow>
        expected \<noteq> ANil \<and> actual \<noteq> [] \<and>
        (\<forall>v \<in> set actual. equals dt v expected = Inr True))"
proof -
  have a: "evaluateCollectionOperator dt OperatorAnyContained [] (ASlice es) = Inr False"
    by (simp add: evaluate_AnyContained)
  have b: "evaluateCollectionOperator dt OperatorAllContained [] (ASlice es) = Inr True"
    by (simp add: evaluate_AllContained)
  have c: "evaluateCell L dt OperatorAnyContained raw (ASlice es) = Inr False"
      "evaluateCell L dt OperatorAllContained raw (ASlice es) = Inr True"
    if "toInterfaceSlice raw = Inr []"
    using that a b
    by (simp_all add: evaluateCell_def expectsActualCollection_def sanitizeCollection_empty)
  have d: "evaluateCollectionOperator dt OperatorAllEqual actual expected = Inr True \<longleftrightarrow>
        expected \<noteq> ANil \<and> actual \<noteq> [] \<and>
        (\<forall>v \<in> set actual. equals dt v expected = Inr True)"
  proof (cases "allEqualLoop dt expected actual")
    case (Inl e)
    then have "allEqualLoop dt expected actual \<noteq> Inr True" by simp
    with Inl show ?thesis
      by (simp add: evaluate_AllEqual allEqualLoop_True [symmetric])
  next
    case (Inr m)
    then show ?thesis
      by (cases m) (simp_all add: evaluate_AllEqual allEqualLoop_True [symmetric])
  qed
  from a b c d show ?thesis by blast
qed

theorem collection_operators_empty_actual_witness:
  "\<forall>L. evaluateCollectionOperator DataTypeString OperatorAnyContained [] (ASlice [AString ''vip''])
         = Inr False
     \<and> evaluateCollectionOperator DataTypeString OperatorAllContained [] (ASlice [AString ''vip''])
         = Inr True
     \<and> toInterfaceSlice (AStrings []) = Inr []
     \<and> evaluateCell L DataTypeString OperatorAnyContained (AStrings []) (ASlice [AString ''vip''])
         = Inr False
     \<and> evaluateCell L DataTypeString OperatorAllContained (AStrings []) (ASlice [AString ''vip''])
         = Inr True
     \<and> evaluateCollectionOperator DataTypeString OperatorAllEqual
          [AString ''a'', AString ''a''] (AString ''a'') = Inr True"
  using collection_operators_empty_actual
          [of DataTypeString "[AString ''vip'']" "AStrings []" _
              "[AString ''a'', AString ''a'']" "AString ''a''"]
  by (simp add: equals.simps)

subsection \<open>Row matching\<close>

lemma matchesCells_prefix:
  assumes "\<forall>c \<in> set pre. ecDataType c \<noteq> [] \<and> cellEval L input c = Inr True"
  shows "matchesCells L n input (pre @ rest) = matchesCells L n input rest"
  using assms by (induction pre) simp_all

lemma cell_string_eq:
  "evaluateCell L DataTypeString OperatorEqual (AString a) (AString b) = Inr (a = b)"
  by (simp add: evaluateCell_def expectsActualCollection_def sanitizeActualValue_def
      coercePrimitive.simps Sprint_def evaluateScalarOperator_def equals.simps)

text \<open>
  Claim C5. Row matching is an ordered, short-circuiting conjunction. Take a row whose
  condition cells are \<open>pre @ cell # post\<close>, where every cell of \<open>pre\<close> carries a
  DataType and matches. If \<open>cell\<close> carries a DataType and does not match, \<open>matches\<close>
  returns false whatever the later cells \<open>post\<close> are (they are not evaluated: none of
  them can turn the answer into an error). If \<open>cell\<close> carries no DataType,
  \<open>matches\<close> returns the error that names the row's number and the cell's column, not
  false. If \<open>cell\<close> matches, the answer is that of the remaining cells.
\<close>

theorem matches_short_circuit:
  assumes "EvalCells r = pre @ cell # post"
    and "\<forall>c \<in> set pre. ecDataType c \<noteq> [] \<and> cellEval L input c = Inr True"
  shows "(ecDataType cell \<noteq> [] \<and> cellEval L input cell = Inr False \<longrightarrow>
            matches L r input = Inr False)
       \<and> (ecDataType cell = [] \<longrightarrow>
            matches L r input = Inl (ErrMissingDataType (Number r) (ecColumn cell)))
       \<and> (ecDataType cell \<noteq> [] \<and> cellEval L input cell = Inr True \<longrightarrow>
            matches L r input = matchesCells L (Number r) input post)"
  using assms by (simp add: matches_def matchesCells_prefix)

theorem matches_short_circuit_witness:
  "\<forall>L. matches L
          \<lparr>EvalCells =
             [\<lparr>ecColumn = ''country'', ecOperator = OperatorEqual, ecValue = AString ''US'',
               ecDataType = DataTypeString\<rparr>,
              \<lparr>ecColumn = ''plan'', ecOperator = OperatorEqual, ecValue = AString ''gold'',
               ecDataType = DataTypeString\<rparr>,
              \<lparr>ecColumn = ''age'', ecOperator = OperatorGreater, ecValue = AInt64 18,
               ecDataType = []\<rparr>],
           ReturnCells = [], RuleID = ''r1'', Comments = [], Number = 7\<rparr>
          [''country'' \<mapsto> AString ''US'', ''plan'' \<mapsto> AString ''free''] = Inr False
     \<and> matches L
          \<lparr>EvalCells =
             [\<lparr>ecColumn = ''country'', ecOperator = OperatorEqual, ecValue = AString ''US'',
               ecDataType = DataTypeString\<rparr>,
              \<lparr>ecColumn = ''age'', ecOperator = OperatorGreater, ecValue = AInt64 18,
               ecDataType = []\<rparr>],
           ReturnCells = [], RuleID = ''r1'', Comments = [], Number = 7\<rparr>
          [''country'' \<mapsto> AString ''US'', ''plan'' \<mapsto> AString ''free'']
        = Inl (ErrMissingDataType 7 ''age'')"
proof (intro allI conjI)
  fix L
  let ?c1 = "\<lparr>ecColumn = ''country'', ecOperator = OperatorEqual, ecValue = AString ''US'',
               ecDataType = DataTypeString\<rparr>"
  let ?c2 = "\<lparr>ecColumn = ''plan'', ecOperator = OperatorEqual, ecValue = AString ''gold'',
               ecDataType = DataTypeString\<rparr>"
  let ?c3 = "\<lparr>ecColumn = ''age'', ecOperator = OperatorGreater, ecValue = AInt64 18,
               ecDataType = []\<rparr>"
  let ?input = "[''country'' \<mapsto> AString ''US'', ''plan'' \<mapsto> AString ''free'']"
  show "matches L \<lparr>EvalCells = [?c1, ?c2, ?c3], ReturnCells = [], RuleID = ''r1'',
          Comments = [], Number = 7\<rparr> ?input = Inr False"
    using matches_short_circuit [of "\<lparr>EvalCells = [?c1, ?c2, ?c3], ReturnCells = [],
          RuleID = ''r1'', Comments = [], Number = 7\<rparr>" "[?c1]" ?c2 "[?c3]" L ?input]
    by (simp add: cell_string_eq index_def)
  show "matches L \<lparr>EvalCells = [?c1, ?c3], ReturnCells = [], RuleID = ''r1'',
          Comments = [], Number = 7\<rparr> ?input = Inl (ErrMissingDataType 7 ''age'')"
    using matches_short_circuit [of "\<lparr>EvalCells = [?c1, ?c3], ReturnCells = [],
          RuleID = ''r1'', Comments = [], Number = 7\<rparr>" "[?c1]" ?c3 "[]" L ?input]
    by (simp add: cell_string_eq index_def)
qed

subsection \<open>The example table\<close>

lemma NewDecisionTable_example:
  "NewDecisionTable ''eligibility'' [countryColumn] [tierColumn]
     [Some (WithMatchPolicy mp), Some (WithNoMatchPolicy nmp)] = Inr (exampleTable mp nmp)"
  by (simp add: NewDecisionTable_def buildColumnMap_def validate_def countryColumn_def
      tierColumn_def exampleTable_def WithMatchPolicy_def WithNoMatchPolicy_def)

lemma coerce_string: "coercePrimitive L DataTypeString (AString s) = Inr (AString s)"
  by (simp add: coercePrimitive.simps Sprint_def)

lemma prepareRow_countryRow:
  assumes "conditionColumns dt = [''country'' \<mapsto> countryColumn]"
    and "outputColumns dt = [''tier'' \<mapsto> tierColumn]"
  shows "prepareRow L dt (countryRow c t n) b1 b2 = Inr (storedCountryRow c t n)"
  using assms
  by (simp add: prepareRow_def countryRow_def storedCountryRow_def countryColumn_def
      tierColumn_def sanitizeExpectedValue_def requiresCollectionValue_def
      sanitizeReturnValue_def coerce_string)

lemma AddRow_countryRow:
  assumes "conditionColumns dt = [''country'' \<mapsto> countryColumn]"
    and "outputColumns dt = [''tier'' \<mapsto> tierColumn]"
  shows "AddRow L dt (countryRow c t n) =
           (None, dt\<lparr>rows := rows dt @
              [storedCountryRow c t (if n \<le> 0 then int (length (rows dt)) + 1 else n)]\<rparr>)"
  using assms
  by (simp add: AddRow_def prepareRow_countryRow) (simp add: storedCountryRow_def)

lemma matches_storedCountryRow:
  "matches L (storedCountryRow c t n) input =
     (case input ''country'' of
        None \<Rightarrow> Inr False
      | Some v \<Rightarrow> (if v = ANil then Inr False
                   else Inr (Sprint L v = c)))"
  by (simp add: matches_def storedCountryRow_def index_def evaluateCell_def
      expectsActualCollection_def sanitizeActualValue_def coercePrimitive.simps
      evaluateScalarOperator_def equals.simps split: option.splits)

lemma matchedRow_storedCountryRow:
  "matchedRow (storedCountryRow c t n) =
     \<lparr>Values = [''tier'' \<mapsto> AString t], mrRuleID = t, mrComments = [], RowNumber = n\<rparr>"
  by (simp add: matchedRow_def storedCountryRow_def materializeReturnValues_def
      cloneValueForType_def)

subsection \<open>No matching row\<close>

lemma evaluateLoop_no_match:
  assumes "\<forall>r \<in> set rs. matches L r input = Inr False"
  shows "evaluateLoop L mp input rs found = Inr found"
  using assms by (induction rs) simp_all

lemma cloneArbitraryValue_id: "cloneArbitraryValue v = v"
  and cloneAnySlice_id: "cloneAnySlice vs = vs"
  by (induction v and vs rule: cloneArbitraryValue_cloneAnySlice.induct)
     (simp_all add: cloneDecimal_def)

lemma cloneMap_id: "cloneMap m = m"
proof (rule ext)
  fix k show "cloneMap m k = m k"
    by (cases "m k") (simp_all add: cloneMap_def cloneArbitraryValue_id)
qed

text \<open>
  Claim C1. When no row matches (every row's \<open>matches\<close> returns false): under
  RETURN_DEFAULT the result is the default row's materialized output if a default row is
  set, otherwise the clone of the caller's fallback map as one entry with row number 0
  (and empty rule id and comment), otherwise the empty sequence; under THROW_ERROR it is
  the default row's output if one is set, otherwise the no-match error.
\<close>

theorem evaluate_no_match:
  assumes "\<forall>r \<in> set (rows t). matches L r input = Inr False"
  shows "(noMatchPolicy t = NoMatchPolicyReturnDefault \<longrightarrow>
            Evaluate L t input fallback =
              (case defaultRow t of
                 Some d \<Rightarrow> Inr [matchedRow d]
               | None \<Rightarrow>
                   (case fallback of
                      Some m \<Rightarrow> Inr [\<lparr>Values = cloneMap m, mrRuleID = [], mrComments = [],
                                       RowNumber = 0\<rparr>]
                    | None \<Rightarrow> Inr [])))
       \<and> (noMatchPolicy t = NoMatchPolicyThrowError \<longrightarrow>
            Evaluate L t input fallback =
              (case defaultRow t of
                 Some d \<Rightarrow> Inr [matchedRow d]
               | None \<Rightarrow> Inl ErrNoMatch))"
  using assms
  by (simp add: Evaluate_def evaluateLoop_no_match policy_defs split: option.splits)

theorem evaluate_no_match_witness:
  "\<forall>L. Evaluate L
          ((exampleTable MatchPolicyAll NoMatchPolicyReturnDefault)
             \<lparr>rows := [storedCountryRow ''US'' ''standard'' 1]\<rparr>)
          [''country'' \<mapsto> AString ''FR''] (Some [''tier'' \<mapsto> AString ''fallback''])
        = Inr [\<lparr>Values = [''tier'' \<mapsto> AString ''fallback''], mrRuleID = [], mrComments = [],
                RowNumber = 0\<rparr>]
     \<and> Evaluate L
          ((exampleTable MatchPolicyAll NoMatchPolicyThrowError)
             \<lparr>rows := [storedCountryRow ''US'' ''standard'' 1],
              defaultRow := Some (storedCountryRow [] ''minor'' 2)\<rparr>)
          [''country'' \<mapsto> AString ''FR''] None
        = Inr [\<lparr>Values = [''tier'' \<mapsto> AString ''minor''], mrRuleID = ''minor'',
                mrComments = [], RowNumber = 2\<rparr>]
     \<and> Evaluate L
          ((exampleTable MatchPolicyAll NoMatchPolicyThrowError)
             \<lparr>rows := [storedCountryRow ''US'' ''standard'' 1]\<rparr>)
          [''country'' \<mapsto> AString ''FR''] None
        = Inl ErrNoMatch"
proof (intro allI conjI)
  fix L
  let ?input = "[''country'' \<mapsto> AString ''FR'']"
  let ?rows = "[storedCountryRow ''US'' ''standard'' 1]"
  have no: "\<forall>r \<in> set ?rows. matches L r ?input = Inr False"
    by (simp add: matches_storedCountryRow Sprint_def)
  show "Evaluate L ((exampleTable MatchPolicyAll NoMatchPolicyReturnDefault)\<lparr>rows := ?rows\<rparr>)
          ?input (Some [''tier'' \<mapsto> AString ''fallback''])
        = Inr [\<lparr>Values = [''tier'' \<mapsto> AString ''fallback''], mrRuleID = [], mrComments = [],
                RowNumber = 0\<rparr>]"
    using no evaluate_no_match
      [of "(exampleTable MatchPolicyAll NoMatchPolicyReturnDefault)\<lparr>rows := ?rows\<rparr>" L ?input
          "Some [''tier'' \<mapsto> AString ''fallback'']"]
    by (simp add: exampleTable_def cloneMap_id)
  show "Evaluate L ((exampleTable MatchPolicyAll NoMatchPolicyThrowError)
             \<lparr>rows := ?rows, defaultRow := Some (storedCountryRow [] ''minor'' 2)\<rparr>) ?input None
        = Inr [\<lparr>Values = [''tier'' \<mapsto> AString ''minor''], mrRuleID = ''minor'',
                mrComments = [], RowNumber = 2\<rparr>]"
    using no evaluate_no_match
      [of "(exampleTable MatchPolicyAll NoMatchPolicyThrowError)
             \<lparr>rows := ?rows, defaultRow := Some (storedCountryRow [] ''minor'' 2)\<rparr>" L ?input None]
    by (simp add: exampleTable_def matchedRow_storedCountryRow)
  show "Evaluate L ((exampleTable MatchPolicyAll NoMatchPolicyThrowError)\<lparr>rows := ?rows\<rparr>)
          ?input None = Inl ErrNoMatch"
    using no evaluate_no_match
      [of "(exampleTable MatchPolicyAll NoMatchPolicyThrowError)\<lparr>rows := ?rows\<rparr>" L ?input None]
    by (simp add: exampleTable_def)
qed

subsection \<open>Registration\<close>

lemma prepareEvalCells_Inr:
  assumes "prepareEvalCells L dt cells = Inr ps"
  shows "\<forall>c \<in> set cells. \<exists>col v. conditionColumns dt (ecColumn c) = Some col \<and> ecOperator c \<noteq> []
            \<and> sanitizeExpectedValue L (colDataType col) (ecOperator c) (ecValue c) = Inr v"
  using assms
proof (induction cells arbitrary: ps)
  case Nil
  show ?case by simp
next
  case (Cons c cs)
  from Cons.prems show ?case
    by (auto split: option.splits if_splits sum.splits dest: Cons.IH)
qed

lemma prepareReturnCells_Inr:
  assumes "prepareReturnCells L dt cells = Inr ps"
  shows "\<forall>c \<in> set cells. \<exists>col v. outputColumns dt (rcColumn c) = Some col
            \<and> sanitizeReturnValue L (colDataType col) (rcValue c) = Inr v"
  using assms
proof (induction cells arbitrary: ps)
  case Nil
  show ?case by simp
next
  case (Cons c cs)
  from Cons.prems show ?case
    by (auto split: option.splits if_splits sum.splits dest: Cons.IH)
qed

lemma rejected_prepareRow:
  assumes "rejected L dt row requireEval requireReturn"
  shows "\<exists>e. prepareRow L dt row requireEval requireReturn = Inl e"
proof (cases "prepareRow L dt row requireEval requireReturn")
  case (Inl e)
  then show ?thesis by blast
next
  case (Inr p)
  then obtain es rs where strict: "\<not> (requireEval \<and> EvalCells row = [])"
      "\<not> (requireReturn \<and> ReturnCells row = [])"
    and es: "prepareEvalCells L dt (EvalCells row) = Inr es"
    and rs: "prepareReturnCells L dt (ReturnCells row) = Inr rs"
    by (auto simp: prepareRow_def split: if_splits sum.splits)
  from prepareEvalCells_Inr [OF es] prepareReturnCells_Inr [OF rs] strict assms
  show ?thesis
    unfolding rejected_def by fastforce
qed

text \<open>
  Claim C8. \<open>AddRow\<close> and \<open>SetDefaultRow\<close> are atomic on failure. A row with a
  defect (an unknown column, a missing operator, a value that fails to sanitize, or, for
  \<open>AddRow\<close> under strict validation and for the return cells of a default row, no cell
  of a required kind) makes the call return an error and leave the table, with its rows,
  default row and columns, as it was; and whenever either call returns an error, for
  whatever reason, the table is unchanged.
\<close>

theorem registration_atomic:
  "(rejected L dt row (rowValidation dt = RowValidationStrict)
       (rowValidation dt = RowValidationStrict) \<longrightarrow> (\<exists>e. AddRow L dt row = (Some e, dt)))
   \<and> (fst (AddRow L dt row) \<noteq> None \<longrightarrow> snd (AddRow L dt row) = dt)
   \<and> (rejected L dt row False True \<longrightarrow> (\<exists>e. SetDefaultRow L dt row = (Some e, dt)))
   \<and> (fst (SetDefaultRow L dt row) \<noteq> None \<longrightarrow> snd (SetDefaultRow L dt row) = dt)"
proof (intro conjI impI)
  assume "rejected L dt row (rowValidation dt = RowValidationStrict)
       (rowValidation dt = RowValidationStrict)"
  from rejected_prepareRow [OF this] show "\<exists>e. AddRow L dt row = (Some e, dt)"
    by (auto simp: AddRow_def)
next
  assume "fst (AddRow L dt row) \<noteq> None"
  then show "snd (AddRow L dt row) = dt"
    by (auto simp: AddRow_def Let_def split: sum.splits)
next
  assume "rejected L dt row False True"
  from rejected_prepareRow [OF this] show "\<exists>e. SetDefaultRow L dt row = (Some e, dt)"
    by (auto simp: SetDefaultRow_def)
next
  assume "fst (SetDefaultRow L dt row) \<noteq> None"
  then show "snd (SetDefaultRow L dt row) = dt"
    by (auto simp: SetDefaultRow_def Let_def split: sum.splits if_splits)
qed

theorem registration_atomic_witness:
  "\<forall>L. AddRow L
          ((exampleTable MatchPolicyAll NoMatchPolicyThrowError)
             \<lparr>rows := [storedCountryRow ''US'' ''standard'' 1]\<rparr>)
          \<lparr>EvalCells = [\<lparr>ecColumn = ''height'', ecOperator = OperatorEqual,
                         ecValue = AString ''tall'', ecDataType = []\<rparr>],
           ReturnCells = [\<lparr>rcColumn = ''tier'', rcValue = AString ''premium'', rcDataType = []\<rparr>],
           RuleID = ''r2'', Comments = [], Number = 0\<rparr>
        = (Some (ErrUnknownColumn ''height''),
           (exampleTable MatchPolicyAll NoMatchPolicyThrowError)
             \<lparr>rows := [storedCountryRow ''US'' ''standard'' 1]\<rparr>)
     \<and> SetDefaultRow L
          ((exampleTable MatchPolicyAll NoMatchPolicyThrowError)
             \<lparr>rows := [storedCountryRow ''US'' ''standard'' 1]\<rparr>)
          \<lparr>EvalCells = [], ReturnCells = [], RuleID = ''d'', Comments = [], Number = 0\<rparr>
        = (Some ErrNoReturnCell,
           (exampleTable MatchPolicyAll NoMatchPolicyThrowError)
             \<lparr>rows := [storedCountryRow ''US'' ''standard'' 1]\<rparr>)"
proof (intro allI conjI)
  fix L
  let ?t = "(exampleTable MatchPolicyAll NoMatchPolicyThrowError)
             \<lparr>rows := [storedCountryRow ''US'' ''standard'' 1]\<rparr>"
  let ?bad = "\<lparr>EvalCells = [\<lparr>ecColumn = ''height'', ecOperator = OperatorEqual,
                         ecValue = AString ''tall'', ecDataType = []\<rparr>],
           ReturnCells = [\<lparr>rcColumn = ''tier'', rcValue = AString ''premium'', rcDataType = []\<rparr>],
           RuleID = ''r2'', Comments = [], Number = 0\<rparr>"
  let ?d = "\<lparr>EvalCells = [], ReturnCells = [], RuleID = ''d'', Comments = [], Number = 0\<rparr>"
  have "rejected L ?t ?bad (rowValidation ?t = RowValidationStrict)
          (rowValidation ?t = RowValidationStrict)"
    by (simp add: rejected_def exampleTable_def)
  with registration_atomic [where L = L and dt = "?t" and row = "?bad"]
  obtain e where e: "AddRow L ?t ?bad = (Some e, ?t)" by blast
  moreover have "fst (AddRow L ?t ?bad) = Some (ErrUnknownColumn ''height'')"
    by (simp add: AddRow_def prepareRow_def exampleTable_def policy_defs)
  ultimately show "AddRow L ?t ?bad = (Some (ErrUnknownColumn ''height''), ?t)" by simp
  have "rejected L ?t ?d False True"
    by (simp add: rejected_def)
  with registration_atomic [where L = L and dt = "?t" and row = "?d"]
  obtain e' where e': "SetDefaultRow L ?t ?d = (Some e', ?t)" by blast
  moreover have "fst (SetDefaultRow L ?t ?d) = Some ErrNoReturnCell"
    by (simp add: SetDefaultRow_def prepareRow_def exampleTable_def policy_defs)
  ultimately show "SetDefaultRow L ?t ?d = (Some ErrNoReturnCell, ?t)" by simp
qed

subsection \<open>A condition column absent from the input\<close>

lemma index_absent: "input c = None \<Longrightarrow> index (input(c \<mapsto> ANil)) k = index input k"
  by (simp add: index_def)

lemma matchesCells_absent:
  "input c = None \<Longrightarrow> matchesCells L n (input(c \<mapsto> ANil)) cells = matchesCells L n input cells"
  by (induction cells) (simp_all add: index_absent split: sum.splits)

lemma evaluateLoop_absent:
  "input c = None \<Longrightarrow>
     evaluateLoop L mp (input(c \<mapsto> ANil)) rs found = evaluateLoop L mp input rs found"
  by (induction rs arbitrary: found)
     (simp_all add: matches_def matchesCells_absent Let_def split: sum.splits)

lemma cell_nil:
  "evaluateCell L dt OperatorIsNull ANil expected = Inr True"
  "evaluateCell L dt OperatorIsNotNull ANil expected = Inr False"
  "expected \<noteq> ANil \<Longrightarrow> evaluateCell L dt OperatorEqual ANil expected = Inr False"
  by (simp_all add: evaluateCell_def expectsActualCollection_def sanitizeActualValue_def
      coercePrimitive.simps evaluateScalarOperator_def equals.simps)

text \<open>
  Claim C9. A condition column absent from the input record reads as a nil actual value.
  For an input lacking key \<open>c\<close> and a cell on column \<open>c\<close>: IS_NULL matches, IS_NOT_NULL
  does not, EQUAL against an expected value that is not nil is false, for every DataType
  and without an error (first for the cell, then for a row made of that one cell). No
  error is specific to the absent column: \<open>matches\<close> of any row and \<open>Evaluate\<close> of
  any table return on this input exactly what they return when the input maps \<open>c\<close> to
  nil.
\<close>

theorem absent_column_is_nil:
  assumes "input c = None"
  shows "(ecColumn cell = c \<longrightarrow>
           (ecOperator cell = OperatorIsNull \<longrightarrow> cellEval L input cell = Inr True)
         \<and> (ecOperator cell = OperatorIsNotNull \<longrightarrow> cellEval L input cell = Inr False)
         \<and> (ecOperator cell = OperatorEqual \<and> ecValue cell \<noteq> ANil \<longrightarrow>
              cellEval L input cell = Inr False))
       \<and> (ecColumn cell = c \<and> ecDataType cell \<noteq> [] \<and> EvalCells r = [cell] \<longrightarrow>
           (ecOperator cell = OperatorIsNull \<longrightarrow> matches L r input = Inr True)
         \<and> (ecOperator cell = OperatorIsNotNull \<longrightarrow> matches L r input = Inr False)
         \<and> (ecOperator cell = OperatorEqual \<and> ecValue cell \<noteq> ANil \<longrightarrow>
              matches L r input = Inr False))
       \<and> matches L r input = matches L r (input(c \<mapsto> ANil))
       \<and> Evaluate L t input fallback = Evaluate L t (input(c \<mapsto> ANil)) fallback"
  using assms
  by (simp add: index_def cell_nil matches_def matchesCells_absent Evaluate_def evaluateLoop_absent)

theorem absent_column_is_nil_witness:
  "\<forall>L. matches L
          \<lparr>EvalCells = [\<lparr>ecColumn = ''country'', ecOperator = OperatorIsNull,
                         ecValue = ABool True, ecDataType = DataTypeString\<rparr>],
           ReturnCells = [], RuleID = ''r'', Comments = [], Number = 1\<rparr>
          [''age'' \<mapsto> AInt 30] = Inr True
     \<and> matches L
          \<lparr>EvalCells = [\<lparr>ecColumn = ''country'', ecOperator = OperatorIsNotNull,
                         ecValue = ABool True, ecDataType = DataTypeString\<rparr>],
           ReturnCells = [], RuleID = ''r'', Comments = [], Number = 1\<rparr>
          [''age'' \<mapsto> AInt 30] = Inr False
     \<and> matches L (storedCountryRow ''US'' ''standard'' 1) [''age'' \<mapsto> AInt 30] = Inr False
     \<and> Evaluate L
          ((exampleTable MatchPolicyAll NoMatchPolicyReturnDefault)
             \<lparr>rows := [storedCountryRow ''US'' ''standard'' 1]\<rparr>)
          [''age'' \<mapsto> AInt 30] None
        = Evaluate L
          ((exampleTable MatchPolicyAll NoMatchPolicyReturnDefault)
             \<lparr>rows := [storedCountryRow ''US'' ''standard'' 1]\<rparr>)
          [''age'' \<mapsto> AInt 30, ''country'' \<mapsto> ANil] None"
proof (intro allI conjI)
  fix L
  let ?input = "[''age'' \<mapsto> AInt 30]"
  let ?null = "\<lparr>ecColumn = ''country'', ecOperator = OperatorIsNull,
                 ecValue = ABool True, ecDataType = DataTypeString\<rparr>"
  let ?notnull = "\<lparr>ecColumn = ''country'', ecOperator = OperatorIsNotNull,
                 ecValue = ABool True, ecDataType = DataTypeString\<rparr>"
  let ?t = "(exampleTable MatchPolicyAll NoMatchPolicyReturnDefault)
             \<lparr>rows := [storedCountryRow ''US'' ''standard'' 1]\<rparr>"
  have absent: "?input ''country'' = None" by simp
  show "matches L \<lparr>EvalCells = [?null], ReturnCells = [], RuleID = ''r'', Comments = [],
          Number = 1\<rparr> ?input = Inr True"
    using absent absent_column_is_nil [where input = "?input" and c = "''country''"
        and cell = "?null" and L = L and r = "\<lparr>EvalCells = [?null], ReturnCells = [],
          RuleID = ''r'', Comments = [], Number = 1\<rparr>"]
    by simp
  show "matches L \<lparr>EvalCells = [?notnull], ReturnCells = [], RuleID = ''r'', Comments = [],
          Number = 1\<rparr> ?input = Inr False"
    using absent absent_column_is_nil [where input = "?input" and c = "''country''"
        and cell = "?notnull" and L = L and r = "\<lparr>EvalCells = [?notnull], ReturnCells = [],
          RuleID = ''r'', Comments = [], Number = 1\<rparr>"]
    by simp
  show "matches L (storedCountryRow ''US'' ''standard'' 1) ?input = Inr False"
    using absent absent_column_is_nil [where input = "?input" and c = "''country''"
        and cell = "hd (EvalCells (storedCountryRow ''US'' ''standard'' 1))" and L = L
        and r = "storedCountryRow ''US'' ''standard'' 1"]
    by (simp add: storedCountryRow_def)
  show "Evaluate L ?t ?input None = Evaluate L ?t [''age'' \<mapsto> AInt 30, ''country'' \<mapsto> ANil] None"
    using absent absent_column_is_nil [where input = "?input" and c = "''country''"
        and L = L and t = "?t" and fallback = None]
    by simp
qed

subsection \<open>Coercion of blank strings\<close>

lemmas trim_defs = TrimSpace_def space1_def space2_def space3_def

text \<open>
  Claim C6, as amended. For a raw string that is empty after trimming white space,
  coercion fails for every target DataType except STRING: with the empty-string error of
  the converter for INTEGER, DECIMAL, BOOLEAN, DATE and DATETIME, because a string is
  not a slice for the two list types, and because the DataType is unsupported for any
  other tag. For STRING the coercion is \<open>fmt.Sprint\<close>, which neither trims nor rejects:
  the raw string, empty or blank, is returned unchanged as a valid value.
\<close>

theorem coerce_blank_string:
  assumes "TrimSpace s = []"
  shows "coercePrimitive L dt (AString s) =
     (if dt = DataTypeString then Inr (AString s)
      else if dt = DataTypeInteger then Inl (ErrEmptyString ''int64'')
      else if dt = DataTypeDecimal then Inl (ErrEmptyString ''decimal'')
      else if dt = DataTypeBoolean then Inl (ErrEmptyString ''bool'')
      else if dt = DataTypeDate \<or> dt = DataTypeDateTime then Inl (ErrEmptyString ''value'')
      else if dt = DataTypeListString \<or> dt = DataTypeListInteger
        then Inl (ErrNotSliceOrArray (AString s))
      else Inl (ErrUnsupportedDataType dt))"
  using assms
  by (simp add: coercePrimitive.simps Sprint_def toBigFloat_string_def parseISODate_def
      parseISODateTime_def toTrimmedString_string_def coerceList.simps)

theorem coerce_blank_string_witness:
  "\<forall>L. TrimSpace ''  '' = []
     \<and> coercePrimitive L DataTypeInteger (AString ''  '') = Inl (ErrEmptyString ''int64'')
     \<and> coercePrimitive L DataTypeDate (AString ''  '') = Inl (ErrEmptyString ''value'')
     \<and> coercePrimitive L DataTypeListString (AString ''  '') = Inl (ErrNotSliceOrArray (AString ''  ''))
     \<and> coercePrimitive L DataTypeString (AString ''  '') = Inr (AString ''  '')"
proof (intro allI)
  fix L
  have t: "TrimSpace ''  '' = []" by (simp add: trim_defs)
  show "TrimSpace ''  '' = []
     \<and> coercePrimitive L DataTypeInteger (AString ''  '') = Inl (ErrEmptyString ''int64'')
     \<and> coercePrimitive L DataTypeDate (AString ''  '') = Inl (ErrEmptyString ''value'')
     \<and> coercePrimitive L DataTypeListString (AString ''  '') = Inl (ErrNotSliceOrArray (AString ''  ''))
     \<and> coercePrimitive L DataTypeString (AString ''  '') = Inr (AString ''  '')"
    using t coerce_blank_string [OF t, of L DataTypeInteger] coerce_blank_string [OF t, of L DataTypeDate]
      coerce_blank_string [OF t, of L DataTypeListString] coerce_blank_string [OF t, of L DataTypeString]
    by simp
qed

theorem coerce_blank_string_counterexample:
  "\<forall>L. TrimSpace [] = [] \<and> coercePrimitive L DataTypeString (AString []) = Inr (AString [])"
  by (simp add: trim_defs coercePrimitive.simps Sprint_def)

subsection \<open>Numeric comparison\<close>

text \<open>
  Claim C3 fails on the code for Integer values. \<open>compare\<close> converts both
  \<open>int64\<close> operands to \<open>float64\<close>, which has 53 significant bits: the operands
  \<open>2 ^ 53 + 1\<close> and \<open>2 ^ 53\<close> become the same double, so GREATER answers false and
  LESS_OR_EQUAL answers true although the first integer is the greater one, and although
  \<open>equals\<close>, which compares the \<open>int64\<close> values themselves, says they differ.
\<close>

theorem compare_integer_through_float64:
  "compare DataTypeInteger OperatorGreater (AInt64 9007199254740993) (AInt64 9007199254740992) = Inr False
   \<and> compare DataTypeInteger OperatorLessOrEqual (AInt64 9007199254740993) (AInt64 9007199254740992) = Inr True
   \<and> sint (9007199254740993 :: 64 word) > sint (9007199254740992 :: 64 word)
   \<and> equals DataTypeInteger (AInt64 9007199254740993) (AInt64 9007199254740992) = Inr False"
  by code_simp

lemma cell_integer_through_float64:
  "evaluateCell L DataTypeInteger OperatorGreater (AInt64 9007199254740993) (AInt64 9007199254740992) = Inr False"
  by code_simp

text \<open>
  The Decimal half of the claim holds on its example: sanitized at precision 128, the
  condition \<open>amount >= "99.999999999999999999"\<close> matches the input
  \<open>"100.000000000000000001"\<close>; and the input is also greater than \<open>"100"\<close>, which
  no double can tell.
\<close>

lemma decimal_literal_comparison:
  "(case sanitizeExpectedValue L DataTypeDecimal OperatorGreaterOrEqual (AString ''99.999999999999999999'') of
      Inl err \<Rightarrow> Inl err
    | Inr expected \<Rightarrow>
        evaluateCell L DataTypeDecimal OperatorGreaterOrEqual (AString ''100.000000000000000001'') expected)
   = Inr True"
  by code_simp

lemma decimal_beyond_double:
  "(case sanitizeExpectedValue L DataTypeDecimal OperatorGreater (AString ''100'') of
      Inl err \<Rightarrow> Inl err
    | Inr expected \<Rightarrow>
        evaluateCell L DataTypeDecimal OperatorGreater (AString ''100.000000000000000001'') expected)
   = Inr True"
  by code_simp

subsection \<open>The UNIQUE match policy\<close>

lemma matching_Cons:
  "matching L input (r # rs) =
     (if matches L r input = Inr True then r # matching L input rs else matching L input rs)"
  by (simp add: matching_def)

lemma matching_Nil [simp]: "matching L input [] = []"
  by (simp add: matching_def)

lemma evaluateLoop_unique_fails:
  assumes "2 \<le> length found + length (matching L input rs)" and "length found \<le> 1"
  shows "\<exists>e. evaluateLoop L MatchPolicyUnique input rs found = Inl e"
  using assms
proof (induction rs arbitrary: found)
  case Nil
  then show ?case by simp
next
  case (Cons r rs)
  show ?case
  proof (cases "matches L r input")
    case (Inl e)
    then show ?thesis by simp
  next
    case (Inr b)
    show ?thesis
    proof (cases b)
      case False
      with Inr Cons.prems have "2 \<le> length found + length (matching L input rs)"
        by (simp add: matching_Cons)
      from Cons.IH [OF this Cons.prems(2)] Inr False show ?thesis by simp
    next
      case True
      show ?thesis
      proof (cases "found = []")
        case False
        with Inr True show ?thesis
          by (cases found) (simp_all add: Let_def policy_defs)
      next
        case e: True
        with Inr True Cons.prems
        have "2 \<le> length [matchedRow r] + length (matching L input rs)"
          by (simp add: matching_Cons)
        from Cons.IH [OF this] obtain err
          where "evaluateLoop L MatchPolicyUnique input rs [matchedRow r] = Inl err"
          by auto
        with Inr True e show ?thesis by (simp add: Let_def policy_defs)
      qed
    qed
  qed
qed

lemma evaluateLoop_unique:
  assumes "\<forall>r \<in> set rs. \<exists>b. matches L r input = Inr b" and "length found \<le> 1"
  shows "evaluateLoop L MatchPolicyUnique input rs found =
           (if 2 \<le> length found + length (matching L input rs) then Inl (ErrUniqueMatch 2)
            else Inr (found @ map matchedRow (matching L input rs)))"
  using assms
proof (induction rs arbitrary: found)
  case Nil
  then show ?case by simp
next
  case (Cons r rs)
  then obtain b where b: "matches L r input = Inr b" by auto
  show ?case
  proof (cases b)
    case False
    with b Cons show ?thesis by (simp add: matching_Cons)
  next
    case True
    show ?thesis
    proof (cases "length found = 1")
      case True
      with b \<open>b\<close> show ?thesis by (simp add: matching_Cons Let_def policy_defs)
    next
      case False
      with Cons.prems have e: "found = []" by (cases found) simp_all
      have "evaluateLoop L MatchPolicyUnique input rs [matchedRow r] =
              (if 2 \<le> length [matchedRow r] + length (matching L input rs) then Inl (ErrUniqueMatch 2)
               else Inr ([matchedRow r] @ map matchedRow (matching L input rs)))"
        using Cons.prems by (intro Cons.IH) simp_all
      with b \<open>b\<close> e show ?thesis by (simp add: matching_Cons Let_def policy_defs)
    qed
  qed
qed

lemma evaluateLoop_all:
  assumes "\<forall>r \<in> set rs. \<exists>b. matches L r input = Inr b"
  shows "evaluateLoop L MatchPolicyAll input rs found =
           Inr (found @ map matchedRow (matching L input rs))"
  using assms
proof (induction rs arbitrary: found)
  case Nil
  then show ?case by simp
next
  case (Cons r rs)
  then obtain b where b: "matches L r input = Inr b" by auto
  with Cons show ?case by (cases b) (simp_all add: matching_Cons Let_def policy_defs)
qed

lemma matching_storedCountryRow:
  "matching L [''country'' \<mapsto> AString c] (storedCountryRow c' t n # rs) =
     (if c = c' then storedCountryRow c' t n # matching L [''country'' \<mapsto> AString c] rs
      else matching L [''country'' \<mapsto> AString c] rs)"
  by (simp add: matching_Cons matches_storedCountryRow Sprint_def)

text \<open>
  Claim C2, as amended. Under the UNIQUE match policy: if at least two rows match,
  \<open>Evaluate\<close> fails. When no row's evaluation raises an error, \<open>Evaluate\<close> fails
  with the ambiguity error if and only if at least two rows match, and if exactly one row
  matches it returns exactly one result, that row's. With no matching row the no-match
  policy decides: \<open>Evaluate\<close> may fail with the no-match error, or return one entry
  made from the default row or the fallback map.
\<close>

theorem evaluate_unique:
  assumes "matchPolicy t = MatchPolicyUnique"
  shows "(2 \<le> length (matching L input (rows t)) \<longrightarrow> (\<exists>e. Evaluate L t input fallback = Inl e))
       \<and> ((\<forall>r \<in> set (rows t). \<exists>b. matches L r input = Inr b) \<longrightarrow>
            ((\<exists>n. Evaluate L t input fallback = Inl (ErrUniqueMatch n)) \<longleftrightarrow>
               2 \<le> length (matching L input (rows t)))
          \<and> (\<forall>r. matching L input (rows t) = [r] \<longrightarrow>
                 Evaluate L t input fallback = Inr [matchedRow r]))"
proof (intro conjI impI)
  assume "2 \<le> length (matching L input (rows t))"
  then have "2 \<le> length ([] :: MatchedRow list) + length (matching L input (rows t))" by simp
  from evaluateLoop_unique_fails [OF this] assms
  show "\<exists>e. Evaluate L t input fallback = Inl e"
    by (auto simp: Evaluate_def)
next
  assume ok: "\<forall>r \<in> set (rows t). \<exists>b. matches L r input = Inr b"
  have loop: "evaluateLoop L MatchPolicyUnique input (rows t) [] =
           (if 2 \<le> length (matching L input (rows t)) then Inl (ErrUniqueMatch 2)
            else Inr (map matchedRow (matching L input (rows t))))"
    using evaluateLoop_unique [OF ok, of "[]"] by simp
  show "(\<exists>n. Evaluate L t input fallback = Inl (ErrUniqueMatch n)) \<longleftrightarrow>
               2 \<le> length (matching L input (rows t))"
    using assms loop
    by (auto simp: Evaluate_def split: option.splits)
  show "\<forall>r. matching L input (rows t) = [r] \<longrightarrow> Evaluate L t input fallback = Inr [matchedRow r]"
    using assms loop by (simp add: Evaluate_def)
qed

theorem evaluate_unique_witness:
  "\<forall>L. Evaluate L
          ((exampleTable MatchPolicyUnique NoMatchPolicyThrowError)
             \<lparr>rows := [storedCountryRow ''US'' ''standard'' 1, storedCountryRow ''US'' ''premium'' 2]\<rparr>)
          [''country'' \<mapsto> AString ''US''] None = Inl (ErrUniqueMatch 2)
     \<and> Evaluate L
          ((exampleTable MatchPolicyUnique NoMatchPolicyThrowError)
             \<lparr>rows := [storedCountryRow ''US'' ''standard'' 1, storedCountryRow ''CA'' ''north'' 2]\<rparr>)
          [''country'' \<mapsto> AString ''CA''] None
        = Inr [\<lparr>Values = [''tier'' \<mapsto> AString ''north''], mrRuleID = ''north'', mrComments = [],
                RowNumber = 2\<rparr>]"
proof (intro allI conjI)
  fix L
  let ?t2 = "(exampleTable MatchPolicyUnique NoMatchPolicyThrowError)
             \<lparr>rows := [storedCountryRow ''US'' ''standard'' 1, storedCountryRow ''US'' ''premium'' 2]\<rparr>"
  let ?t1 = "(exampleTable MatchPolicyUnique NoMatchPolicyThrowError)
             \<lparr>rows := [storedCountryRow ''US'' ''standard'' 1, storedCountryRow ''CA'' ''north'' 2]\<rparr>"
  have u2: "matchPolicy ?t2 = MatchPolicyUnique" and u1: "matchPolicy ?t1 = MatchPolicyUnique"
    by (simp_all add: exampleTable_def)
  have ok2: "\<forall>r \<in> set (rows ?t2). \<exists>b. matches L r [''country'' \<mapsto> AString ''US''] = Inr b"
    by (simp add: matches_storedCountryRow)
  have ok1: "\<forall>r \<in> set (rows ?t1). \<exists>b. matches L r [''country'' \<mapsto> AString ''CA''] = Inr b"
    by (simp add: matches_storedCountryRow)
  have m2: "matching L [''country'' \<mapsto> AString ''US''] (rows ?t2)
              = [storedCountryRow ''US'' ''standard'' 1, storedCountryRow ''US'' ''premium'' 2]"
    by (simp add: matching_storedCountryRow)
  have m1: "matching L [''country'' \<mapsto> AString ''CA''] (rows ?t1)
              = [storedCountryRow ''CA'' ''north'' 2]"
    by (simp add: matching_storedCountryRow)
  from evaluate_unique [OF u2, where L = L and input = "[''country'' \<mapsto> AString ''US'']"
      and fallback = None] ok2 m2
  obtain n where n: "Evaluate L ?t2 [''country'' \<mapsto> AString ''US''] None = Inl (ErrUniqueMatch n)"
    by auto
  moreover have "Evaluate L ?t2 [''country'' \<mapsto> AString ''US''] None \<noteq> Inl (ErrUniqueMatch k)"
    if "k \<noteq> 2" for k
    using that
    by (simp add: Evaluate_def exampleTable_def matches_storedCountryRow Sprint_def policy_defs)
  ultimately show "Evaluate L ?t2 [''country'' \<mapsto> AString ''US''] None = Inl (ErrUniqueMatch 2)"
    by (cases "n = 2") auto
  from evaluate_unique [OF u1, where L = L and input = "[''country'' \<mapsto> AString ''CA'']"
      and fallback = None] ok1 m1
  show "Evaluate L ?t1 [''country'' \<mapsto> AString ''CA''] None
        = Inr [\<lparr>Values = [''tier'' \<mapsto> AString ''north''], mrRuleID = ''north'', mrComments = [],
                RowNumber = 2\<rparr>]"
    by (simp add: matchedRow_storedCountryRow)
qed

theorem evaluate_unique_counterexample:
  "\<forall>L. Evaluate L (exampleTable MatchPolicyUnique NoMatchPolicyThrowError)
          [''country'' \<mapsto> AString ''US''] None = Inl ErrNoMatch
     \<and> matching L [''country'' \<mapsto> AString ''US'']
          (rows (exampleTable MatchPolicyUnique NoMatchPolicyThrowError)) = []
     \<and> Evaluate L
          ((exampleTable MatchPolicyUnique NoMatchPolicyReturnDefault)
             \<lparr>rows := [storedCountryRow ''CA'' ''north'' 1],
              defaultRow := Some (storedCountryRow [] ''minor'' 2)\<rparr>)
          [''country'' \<mapsto> AString ''US''] None
        = Inr [\<lparr>Values = [''tier'' \<mapsto> AString ''minor''], mrRuleID = ''minor'', mrComments = [],
                RowNumber = 2\<rparr>]
     \<and> matching L [''country'' \<mapsto> AString ''US''] [storedCountryRow ''CA'' ''north'' 1] = []"
  by (simp add: Evaluate_def exampleTable_def matches_storedCountryRow Sprint_def policy_defs
      matching_storedCountryRow matchedRow_storedCountryRow)

subsection \<open>The ALL match policy and row numbers\<close>

lemma prepareRow_Number: "prepareRow L dt row b1 b2 = Inr p \<Longrightarrow> Number p = Number row"
  by (auto simp: prepareRow_def split: if_splits sum.splits)

lemma AddRow_success:
  assumes "AddRow L dt row = (None, dt')"
  shows "\<exists>p. dt' = dt\<lparr>rows := rows dt @ [p]\<rparr> \<and>
           Number p = (if Number row \<le> 0 then int (length (rows dt)) + 1 else Number row)"
proof -
  from assms obtain q where q: "prepareRow L dt row (rowValidation dt = RowValidationStrict)
             (rowValidation dt = RowValidationStrict) = Inr q"
    by (cases "prepareRow L dt row (rowValidation dt = RowValidationStrict)
             (rowValidation dt = RowValidationStrict)") (simp_all add: AddRow_def)
  from prepareRow_Number [OF q] have n: "Number q = Number row" .
  show ?thesis
  proof (cases "Number row \<le> 0")
    case True
    with assms q n show ?thesis
      by (intro exI [of _ "q\<lparr>Number := int (length (rows dt)) + 1\<rparr>"]) (auto simp: AddRow_def)
  next
    case False
    with assms q n show ?thesis
      by (intro exI [of _ q]) (auto simp: AddRow_def)
  qed
qed

lemma AddRow_failure: "fst (AddRow L dt row) \<noteq> None \<Longrightarrow> snd (AddRow L dt row) = dt"
  by (auto simp: AddRow_def Let_def split: sum.splits)

lemma AddRow_rows:
  "rows (snd (AddRow L dt row)) = rows dt \<or>
   (\<exists>p. rows (snd (AddRow L dt row)) = rows dt @ [p] \<and>
        Number p = (if Number row \<le> 0 then int (length (rows dt)) + 1 else Number row))"
proof (cases "fst (AddRow L dt row)")
  case None
  then have "AddRow L dt row = (None, snd (AddRow L dt row))" by (simp add: prod_eq_iff)
  from AddRow_success [OF this] show ?thesis by auto
next
  case (Some e)
  then show ?thesis using AddRow_failure [of L dt row] by simp
qed

lemma AddRows_Cons: "AddRows L dt (r # raws) = AddRows L (snd (AddRow L dt r)) raws"
  by (simp add: AddRows_def)

lemma AddRows_numbers:
  assumes "\<forall>r \<in> set raws. Number r \<le> 0"
    and "map Number (rows dt) = map int [1..<Suc (length (rows dt))]"
  shows "map Number (rows (AddRows L dt raws)) =
           map int [1..<Suc (length (rows (AddRows L dt raws)))]"
  using assms
proof (induction raws arbitrary: dt)
  case Nil
  then show ?case by (simp add: AddRows_def)
next
  case (Cons r raws)
  from Cons.prems have r: "Number r \<le> 0" by simp
  have step: "map Number (rows (snd (AddRow L dt r))) =
                map int [1..<Suc (length (rows (snd (AddRow L dt r))))]"
    using AddRow_rows [of L dt r]
  proof
    assume "rows (snd (AddRow L dt r)) = rows dt"
    with Cons.prems(2) show ?thesis by simp
  next
    assume "\<exists>p. rows (snd (AddRow L dt r)) = rows dt @ [p] \<and>
        Number p = (if Number r \<le> 0 then int (length (rows dt)) + 1 else Number r)"
    then obtain p where p: "rows (snd (AddRow L dt r)) = rows dt @ [p]"
      "Number p = int (length (rows dt)) + 1" using r by auto
    with Cons.prems(2) show ?thesis by simp
  qed
  from Cons.prems have "\<forall>r \<in> set raws. Number r \<le> 0" by simp
  from Cons.IH [OF this step] show ?case by (simp add: AddRows_Cons)
qed

lemma sorted_numbers:
  assumes "map Number rs = map int [1..<Suc (length rs)]"
  shows "sorted_wrt (<) (map Number (filter P rs))"
proof -
  have "sorted_wrt (<) (map int [1..<Suc (length rs)])"
    by (simp add: sorted_wrt_map del: upt_Suc)
  with assms have "sorted_wrt (\<lambda>x y. Number x < Number y) rs"
    by (simp add: sorted_wrt_map [symmetric])
  then have "sorted_wrt (\<lambda>x y. Number x < Number y) (filter P rs)"
    by (rule sorted_wrt_filter)
  then show ?thesis by (simp add: sorted_wrt_map)
qed

text \<open>
  Claim C7, as amended. Under the ALL match policy, on an input for which no row's
  evaluation raises an error and at least one row matches, \<open>Evaluate\<close> returns the
  matching rows in declaration order, so its row-number sequence is the subsequence of
  the stored row numbers at the matching rows. \<open>AddRow\<close> stores a row registered with a
  number \<open>\<le> 0\<close> under its 1-based declaration position and a row registered with a
  positive number under that number. So for a table built from no rows by \<open>AddRow\<close>
  calls that all leave the number out, the stored numbers are \<open>1, 2, \<dots>\<close> and the
  returned sequence is strictly increasing; with caller-supplied numbers it is in
  declaration order only.
\<close>

theorem evaluate_all_row_numbers:
  assumes "matchPolicy t = MatchPolicyAll"
    and "\<forall>r \<in> set (rows t). \<exists>b. matches L r input = Inr b"
    and "matching L input (rows t) \<noteq> []"
  shows "Evaluate L t input fallback = Inr (map matchedRow (matching L input (rows t)))
       \<and> map RowNumber (map matchedRow (matching L input (rows t))) =
           map Number (matching L input (rows t))
       \<and> (AddRow L dt row = (None, dt') \<longrightarrow>
            (\<exists>p. dt' = dt\<lparr>rows := rows dt @ [p]\<rparr> \<and>
                 Number p = (if Number row \<le> 0 then int (length (rows dt)) + 1 else Number row)))
       \<and> (rows t0 = [] \<and> t = AddRows L t0 raws \<and> (\<forall>r \<in> set raws. Number r \<le> 0) \<longrightarrow>
            map Number (rows t) = map int [1..<Suc (length (rows t))] \<and>
            sorted_wrt (<) (map Number (matching L input (rows t))))"
proof (intro conjI impI)
  show "Evaluate L t input fallback = Inr (map matchedRow (matching L input (rows t)))"
    using assms evaluateLoop_all [OF assms(2), of "[]"]
    by (simp add: Evaluate_def policy_defs)
  show "map RowNumber (map matchedRow (matching L input (rows t))) =
           map Number (matching L input (rows t))"
    by (simp add: matchedRow_def)
  show "\<exists>p. dt' = dt\<lparr>rows := rows dt @ [p]\<rparr> \<and>
            Number p = (if Number row \<le> 0 then int (length (rows dt)) + 1 else Number row)"
    if "AddRow L dt row = (None, dt')"
    using AddRow_success [OF that] .
next
  assume a: "rows t0 = [] \<and> t = AddRows L t0 raws \<and> (\<forall>r \<in> set raws. Number r \<le> 0)"
  then have "map Number (rows t0) = map int [1..<Suc (length (rows t0))]" by simp
  with a have n: "map Number (rows t) = map int [1..<Suc (length (rows t))]"
    using AddRows_numbers [of raws t0 L] by blast
  then show "map Number (rows t) = map int [1..<Suc (length (rows t))]" .
  from sorted_numbers [OF n] show "sorted_wrt (<) (map Number (matching L input (rows t)))"
    by (simp add: matching_def)
qed

lemma AddRows_example:
  "AddRows L (exampleTable mp nmp)
     [countryRow c1 t1 n1, countryRow c2 t2 n2, countryRow c3 t3 n3] =
   (exampleTable mp nmp)
     \<lparr>rows := [storedCountryRow c1 t1 (if n1 \<le> 0 then 1 else n1),
               storedCountryRow c2 t2 (if n2 \<le> 0 then 2 else n2),
               storedCountryRow c3 t3 (if n3 \<le> 0 then 3 else n3)]\<rparr>"
  by (simp add: AddRows_def AddRow_countryRow exampleTable_def)

theorem evaluate_all_row_numbers_witness:
  "\<forall>L. Evaluate L
          (AddRows L (exampleTable MatchPolicyAll NoMatchPolicyThrowError)
             [countryRow ''US'' ''standard'' 0, countryRow ''CA'' ''north'' 0,
              countryRow ''US'' ''premium'' 0])
          [''country'' \<mapsto> AString ''US''] None
        = Inr [\<lparr>Values = [''tier'' \<mapsto> AString ''standard''], mrRuleID = ''standard'',
                mrComments = [], RowNumber = 1\<rparr>,
               \<lparr>Values = [''tier'' \<mapsto> AString ''premium''], mrRuleID = ''premium'',
                mrComments = [], RowNumber = 3\<rparr>]"
proof (intro allI)
  fix L
  let ?t = "AddRows L (exampleTable MatchPolicyAll NoMatchPolicyThrowError)
             [countryRow ''US'' ''standard'' 0, countryRow ''CA'' ''north'' 0,
              countryRow ''US'' ''premium'' 0]"
  let ?input = "[''country'' \<mapsto> AString ''US'']"
  have t: "?t = (exampleTable MatchPolicyAll NoMatchPolicyThrowError)
     \<lparr>rows := [storedCountryRow ''US'' ''standard'' 1, storedCountryRow ''CA'' ''north'' 2,
               storedCountryRow ''US'' ''premium'' 3]\<rparr>"
    by (simp add: AddRows_example)
  have p: "matchPolicy ?t = MatchPolicyAll" unfolding t by (simp add: exampleTable_def)
  have ok: "\<forall>r \<in> set (rows ?t). \<exists>b. matches L r ?input = Inr b"
    unfolding t by (simp add: matches_storedCountryRow)
  have m: "matching L ?input (rows ?t) =
             [storedCountryRow ''US'' ''standard'' 1, storedCountryRow ''US'' ''premium'' 3]"
    unfolding t by (simp add: matching_storedCountryRow)
  then have ne: "matching L ?input (rows ?t) \<noteq> []" by simp
  from evaluate_all_row_numbers [OF p ok ne, where fallback = None] m
  show "Evaluate L ?t ?input None
        = Inr [\<lparr>Values = [''tier'' \<mapsto> AString ''standard''], mrRuleID = ''standard'',
                mrComments = [], RowNumber = 1\<rparr>,
               \<lparr>Values = [''tier'' \<mapsto> AString ''premium''], mrRuleID = ''premium'',
                mrComments = [], RowNumber = 3\<rparr>]"
    by (simp add: matchedRow_storedCountryRow)
qed

theorem evaluate_all_row_numbers_counterexample:
  "\<forall>L. Evaluate L
          (AddRows L (exampleTable MatchPolicyAll NoMatchPolicyThrowError)
             [countryRow ''US'' ''standard'' 5, countryRow ''CA'' ''north'' 0,
              countryRow ''US'' ''premium'' 2])
          [''country'' \<mapsto> AString ''US''] None
        = Inr [\<lparr>Values = [''tier'' \<mapsto> AString ''standard''], mrRuleID = ''standard'',
                mrComments = [], RowNumber = 5\<rparr>,
               \<lparr>Values = [''tier'' \<mapsto> AString ''premium''], mrRuleID = ''premium'',
                mrComments = [], RowNumber = 2\<rparr>]
     \<and> \<not> sorted_wrt (<) [5, 2 :: int]"
  unfolding AddRows_example
  by (simp add: Evaluate_def exampleTable_def matches_storedCountryRow
      Sprint_def policy_defs matchedRow_storedCountryRow)

end
